theory Spec2Isabelle
  imports Main
begin

section \<open>Shift-template versioning and work-shift resolution\<close>

text \<open>
  A shallow embedding of the shift-template service (\<^verbatim>\<open>calculateTimeInfo\<close>,
  \<^verbatim>\<open>getCurrentVersion\<close>, \<^verbatim>\<open>createShiftType\<close>, \<^verbatim>\<open>updateShiftType\<close>,
  \<^verbatim>\<open>deleteShiftType\<close>) and of the calendar service (\<^verbatim>\<open>upsertWorkShift\<close>,
  \<^verbatim>\<open>batchUpsertWorkShifts\<close>), over the five tables of the Sequelize models.
\<close>

subsection \<open>Time strings\<close>

text \<open>
  \<^verbatim>\<open>start_time.split(":").map(Number)\<close>: the string is cut at every colon and each piece is
  read as a number. \<open>js_number\<close> covers the pieces that are plain runs of decimal digits
  (the empty piece reads as 0, as \<^verbatim>\<open>Number("")\<close> does); for every other piece it gives
  \<open>None\<close>, which stands for \<^verbatim>\<open>NaN\<close> and for the numeral forms (sign, fraction, exponent)
  that the route's pattern for time strings never lets through.
\<close>

definition is_digit :: "char \<Rightarrow> bool" where
  "is_digit c = (48 \<le> (of_char c :: nat) \<and> (of_char c :: nat) \<le> 57)"

definition js_number :: "string \<Rightarrow> nat option" where
  "js_number s =
     (if list_all is_digit s
      then Some (fold (\<lambda>c n. 10 * n + ((of_char c :: nat) - 48)) s 0)
      else None)"

fun split_on :: "char \<Rightarrow> string \<Rightarrow> string list" where
  "split_on sep [] = [[]]"
| "split_on sep (c # cs) =
     (if c = sep then [] # split_on sep cs
      else (case split_on sep cs of
              [] \<Rightarrow> [[c]]
            | p # ps \<Rightarrow> (c # p) # ps))"

text \<open>
  \<^verbatim>\<open>const [hours, minutes] = t.split(":").map(Number); hours * 60 + minutes\<close>.
  A missing second piece is \<^verbatim>\<open>undefined\<close> in the source and makes the sum \<^verbatim>\<open>NaN\<close>.
\<close>

definition total_minutes :: "string \<Rightarrow> nat option" where
  "total_minutes t =
     (case map js_number (split_on CHR '':'' t) of
        Some hours # Some minutes # _ \<Rightarrow> Some (hours * 60 + minutes)
      | _ \<Rightarrow> None)"

record time_info =
  crosses_midnight :: bool
  duration_minutes :: int

text \<open>\<^verbatim>\<open>!t\<close> for \<^verbatim>\<open>t: string | null\<close>: null and the empty string are falsy.\<close>

definition falsy :: "string option \<Rightarrow> bool" where
  "falsy t = (case t of None \<Rightarrow> True | Some s \<Rightarrow> s = [])"

text \<open>
  \<^verbatim>\<open>calculateTimeInfo\<close>. The result is \<open>None\<close> exactly when one of the two sums is
  \<^verbatim>\<open>NaN\<close> in the sense above.
\<close>

definition calculateTimeInfo :: "string option \<Rightarrow> string option \<Rightarrow> time_info option" where
  "calculateTimeInfo start_time end_time =
     (if falsy start_time \<or> falsy end_time
      then Some \<lparr>crosses_midnight = False, duration_minutes = 0\<rparr>
      else
        (case (start_time, end_time) of
           (Some s, Some e) \<Rightarrow>
             (case (total_minutes s, total_minutes e) of
                (Some start_total_minutes, Some end_total_minutes) \<Rightarrow>
                  (let crosses = start_total_minutes > end_total_minutes in
                   Some \<lparr>crosses_midnight = crosses,
                         duration_minutes =
                           (if crosses
                            then 24 * 60 - int start_total_minutes + int end_total_minutes
                            else int end_total_minutes - int start_total_minutes)\<rparr>)
              | _ \<Rightarrow> None)
         | _ \<Rightarrow> Some \<lparr>crosses_midnight = False, duration_minutes = 0\<rparr>))"

subsection \<open>The tables\<close>

text \<open>
  One record per Sequelize model, with the model's column names behind a prefix per table
  (\<open>t_\<close> shift_templates, \<open>v_\<close> shift_template_versions, \<open>st_\<close> shift_types,
  \<open>sch_\<close> shift_type_schedules, \<open>ws_\<close> work_shifts), since several tables share
  column names. UUIDs are natural numbers. A \<^verbatim>\<open>DATEONLY\<close> value and a request's
  \<^verbatim>\<open>YYYY-MM-DD\<close> string are a calendar day, counted as an integer, so that comparing
  days is comparing integers: the controller admits only strings of that shape, and two
  strings are taken to name the same day only when they are the same string. The
  \<^verbatim>\<open>created_at\<close> and \<^verbatim>\<open>updated_at\<close> stamps are left out; \<^verbatim>\<open>deleted_at\<close> is kept. The tables
  are lists of rows in the order of insertion. Of the foreign keys, the one a write of
  these services can break is enforced: a schedule row cannot be deleted while a work shift
  row points at it. Of the column types, the integer ranges are enforced
  (\<^verbatim>\<open>SMALLINT\<close> sort_order, \<^verbatim>\<open>BIGINT\<close> color, \<^verbatim>\<open>INTEGER\<close> duration_minutes); text columns
  take any string.
\<close>

type_synonym uuid = nat
type_synonym date = int
type_synonym timestamp = nat

record ShiftTemplate =
  t_template_id :: uuid
  t_owner_user_id :: uuid
  t_name :: string
  t_deleted_at :: "timestamp option"

record ShiftTemplateVersion =
  v_template_version_id :: uuid
  v_template_id :: uuid
  v_version_no :: nat
  v_effective_from :: date
  v_created_by_user_id :: uuid

record ShiftType =
  st_shift_type_id :: uuid
  st_template_id :: uuid
  st_code :: string
  st_name :: string
  st_color :: "int option"
  st_sort_order :: "int option"
  st_deleted_at :: "timestamp option"

record ShiftTypeSchedule =
  sch_schedule_id :: uuid
  sch_shift_type_id :: uuid
  sch_template_version_id :: uuid
  sch_start_time :: "string option"
  sch_end_time :: "string option"
  sch_crosses_midnight :: bool
  sch_duration_minutes :: int

record WorkShift =
  ws_work_shift_id :: uuid
  ws_owner_user_id :: uuid
  ws_work_date :: date
  ws_schedule_id :: uuid
  ws_note :: "string option"
  ws_visibility_level :: int
  ws_created_by_user_id :: uuid
  ws_deleted_at :: "timestamp option"
  ws_deleted_by_user_id :: "uuid option"

record store =
  shift_templates :: "ShiftTemplate list"
  shift_template_versions :: "ShiftTemplateVersion list"
  shift_types :: "ShiftType list"
  shift_type_schedules :: "ShiftTypeSchedule list"
  work_shifts :: "WorkShift list"

text \<open>
  The errors the two services throw. \<open>VALIDATION_ERROR\<close> is what the validators of the
  ShiftTypeSchedule model raise; \<open>DATABASE_ERROR\<close> is the store's refusal of a number
  outside its column's range and \<open>FOREIGN_KEY_CONSTRAINT_ERROR\<close> its refusal to delete a
  row that is still referenced; \<open>NAN_DURATION\<close> stands for whatever the store does with
  the \<^verbatim>\<open>NaN\<close> duration of a time string that is not digits and colons, which this model
  does not follow further.
\<close>

datatype error =
    TEMPLATE_NOT_FOUND
  | SHIFT_TYPE_NOT_FOUND
  | INVALID_SHIFT_TYPE string date
  | DUPLICATE_DATE "date list"
  | TEMPLATE_VERSION_NOT_FOUND date
  | MAX_SHIFT_TYPES_EXCEEDED
  | FORBIDDEN
  | IN_USE
  | VALIDATION_ERROR
  | DATABASE_ERROR
  | FOREIGN_KEY_CONSTRAINT_ERROR
  | NAN_DURATION

text \<open>
  The server: the committed tables, the log of transaction events, the source of new
  UUIDs (\<^verbatim>\<open>UUIDV4\<close> defaults, here a counter), and the offset of the process's time zone
  from UTC in minutes, positive to the east.
\<close>

datatype tx_event = Begin | Commit | Rollback

record server =
  committed :: store
  tx_log :: "tx_event list"
  next_uuid :: uuid
  tz_offset :: int

text \<open>
  The day a request's \<^verbatim>\<open>work_date\<close> becomes in the process. \<^verbatim>\<open>new Date("YYYY-MM-DD")\<close> is
  midnight UTC of that day; \<^verbatim>\<open>setHours(0, 0, 0, 0)\<close> moves it to the local midnight before
  it, and a \<^verbatim>\<open>DATEONLY\<close> column or comparison takes the local calendar day of the value.
  At or east of UTC that is the day itself, west of UTC the day before.
\<close>

definition local_day :: "int \<Rightarrow> date \<Rightarrow> date" where
  "local_day offset work_date = (if offset < 0 then work_date - 1 else work_date)"

text \<open>The integer column types of the store.\<close>

definition smallint :: "int \<Rightarrow> bool" where
  "smallint n = (- 32768 \<le> n \<and> n \<le> 32767)"

definition integer4 :: "int \<Rightarrow> bool" where
  "integer4 n = (- 2147483648 \<le> n \<and> n \<le> 2147483647)"

definition bigint :: "int \<Rightarrow> bool" where
  "bigint n = (- 9223372036854775808 \<le> n \<and> n \<le> 9223372036854775807)"

definition in_range :: "(int \<Rightarrow> bool) \<Rightarrow> int option \<Rightarrow> bool" where
  "in_range column v = (case v of None \<Rightarrow> True | Some n \<Rightarrow> column n)"

subsection \<open>Queries\<close>

text \<open>\<^verbatim>\<open>findOne\<close> without an order is the first matching row, \<^const>\<open>find\<close>.\<close>

definition find_active_template :: "store \<Rightarrow> uuid \<Rightarrow> ShiftTemplate option" where
  "find_active_template s user_id =
     find (\<lambda>t. t_owner_user_id t = user_id \<and> t_deleted_at t = None) (shift_templates s)"

text \<open>\<^verbatim>\<open>order: [["effective_from", "DESC"]]\<close> with \<^verbatim>\<open>findOne\<close>: a row of greatest
  \<^verbatim>\<open>effective_from\<close>, the earliest such row of the table when several share it.\<close>

fun latest_by_effective_from :: "ShiftTemplateVersion list \<Rightarrow> ShiftTemplateVersion option" where
  "latest_by_effective_from [] = None"
| "latest_by_effective_from (v # vs) =
     (case latest_by_effective_from vs of
        None \<Rightarrow> Some v
      | Some w \<Rightarrow> if v_effective_from v < v_effective_from w then Some w else Some v)"

definition find_latest_version :: "store \<Rightarrow> uuid \<Rightarrow> ShiftTemplateVersion option" where
  "find_latest_version s template_id =
     latest_by_effective_from
       (filter (\<lambda>v. v_template_id v = template_id) (shift_template_versions s))"

definition getCurrentVersion :: "store \<Rightarrow> uuid \<Rightarrow> error + ShiftTemplateVersion" where
  "getCurrentVersion s template_id =
     (case find_latest_version s template_id of
        None \<Rightarrow> Inl TEMPLATE_NOT_FOUND
      | Some version \<Rightarrow> Inr version)"

definition find_schedule :: "store \<Rightarrow> uuid \<Rightarrow> uuid \<Rightarrow> ShiftTypeSchedule option" where
  "find_schedule s shift_type_id template_version_id =
     find (\<lambda>r. sch_shift_type_id r = shift_type_id \<and>
               sch_template_version_id r = template_version_id)
          (shift_type_schedules s)"

definition live_shift_types :: "store \<Rightarrow> uuid \<Rightarrow> ShiftType list" where
  "live_shift_types s template_id =
     filter (\<lambda>st. st_template_id st = template_id \<and> st_deleted_at st = None) (shift_types s)"

text \<open>\<^verbatim>\<open>WorkShift.findOne({ where: { schedule_id: { [Op.in]: ids }, deleted_at: null } })\<close>.\<close>

definition find_live_work_shift_using :: "store \<Rightarrow> uuid list \<Rightarrow> WorkShift option" where
  "find_live_work_shift_using s schedule_ids =
     find (\<lambda>w. ws_schedule_id w \<in> set schedule_ids \<and> ws_deleted_at w = None) (work_shifts s)"

subsection \<open>Writes\<close>

text \<open>The validators of the ShiftTypeSchedule model, run by \<^verbatim>\<open>create\<close> and \<^verbatim>\<open>save\<close>:
  \<^verbatim>\<open>timeConsistency\<close> (both times or neither) and \<^verbatim>\<open>min: 0\<close> on the duration.\<close>

definition schedule_valid :: "ShiftTypeSchedule \<Rightarrow> bool" where
  "schedule_valid r =
     (((sch_start_time r \<noteq> None) = (sch_end_time r \<noteq> None)) \<and> 0 \<le> sch_duration_minutes r)"

definition create_schedule ::
  "store \<Rightarrow> uuid \<Rightarrow> uuid \<Rightarrow> uuid \<Rightarrow> string option \<Rightarrow> string option \<Rightarrow> bool \<Rightarrow> int \<Rightarrow>
   error + (ShiftTypeSchedule \<times> store)" where
  "create_schedule s new_id shift_type_id template_version_id start_time end_time crosses duration =
     (let r = \<lparr>sch_schedule_id = new_id, sch_shift_type_id = shift_type_id,
               sch_template_version_id = template_version_id,
               sch_start_time = start_time, sch_end_time = end_time,
               sch_crosses_midnight = crosses, sch_duration_minutes = duration\<rparr>
      in if \<not> schedule_valid r then Inl VALIDATION_ERROR
         else if \<not> integer4 (sch_duration_minutes r) then Inl DATABASE_ERROR
         else Inr (r, s\<lparr>shift_type_schedules := shift_type_schedules s @ [r]\<rparr>))"

definition save_schedule :: "store \<Rightarrow> ShiftTypeSchedule \<Rightarrow> error + store" where
  "save_schedule s r =
     (if \<not> schedule_valid r then Inl VALIDATION_ERROR
      else if \<not> integer4 (sch_duration_minutes r) then Inl DATABASE_ERROR
      else Inr (s\<lparr>shift_type_schedules :=
                    map (\<lambda>x. if sch_schedule_id x = sch_schedule_id r then r else x)
                        (shift_type_schedules s)\<rparr>))"

text \<open>
  \<^verbatim>\<open>existing_schedule.destroy()\<close>. \<^verbatim>\<open>work_shifts.schedule_id\<close> is a non-null foreign key to
  the schedule, and a soft delete keeps the work shift row, so the delete is refused while
  any work shift row, live or soft-deleted, points at the schedule.
\<close>

definition destroy_schedule :: "store \<Rightarrow> ShiftTypeSchedule \<Rightarrow> error + store" where
  "destroy_schedule s r =
     (if list_ex (\<lambda>w. ws_schedule_id w = sch_schedule_id r) (work_shifts s)
      then Inl FOREIGN_KEY_CONSTRAINT_ERROR
      else Inr (s\<lparr>shift_type_schedules :=
                    filter (\<lambda>x. sch_schedule_id x \<noteq> sch_schedule_id r)
                           (shift_type_schedules s)\<rparr>))"

text \<open>\<^verbatim>\<open>ShiftType.create\<close>: the insert is refused when sort_order or color is out of the
  column's range.\<close>

definition create_shift_type :: "store \<Rightarrow> ShiftType \<Rightarrow> error + store" where
  "create_shift_type s st =
     (if in_range smallint (st_sort_order st) \<and> in_range bigint (st_color st)
      then Inr (s\<lparr>shift_types := shift_types s @ [st]\<rparr>)
      else Inl DATABASE_ERROR)"

text \<open>\<^verbatim>\<open>shift_type.save()\<close> on a row read as \<open>old\<close> and changed to \<open>st\<close>: the update writes
  the columns whose value has changed, and is refused when one of them is out of range.\<close>

definition save_shift_type :: "store \<Rightarrow> ShiftType \<Rightarrow> ShiftType \<Rightarrow> error + store" where
  "save_shift_type s old st =
     (if (st_sort_order st = st_sort_order old \<or> in_range smallint (st_sort_order st)) \<and>
         (st_color st = st_color old \<or> in_range bigint (st_color st))
      then Inr (s\<lparr>shift_types :=
                    map (\<lambda>x. if st_shift_type_id x = st_shift_type_id st then st else x)
                        (shift_types s)\<rparr>)
      else Inl DATABASE_ERROR)"

text \<open>
  \<^verbatim>\<open>WorkShift.upsert(values, { conflictFields: ["owner_user_id", "work_date"] })\<close>: an insert
  that, when a row with the same owner and day is already there (the unique index of the
  model covers every row, soft-deleted or not), instead overwrites the columns the call
  supplies: \<^verbatim>\<open>schedule_id\<close>, \<^verbatim>\<open>note\<close>, \<^verbatim>\<open>visibility_level\<close>, \<^verbatim>\<open>created_by_user_id\<close>.
  The call supplies neither \<^verbatim>\<open>deleted_at\<close> nor \<^verbatim>\<open>deleted_by_user_id\<close>: a new row gets the
  defaults (null), a row already there keeps what it has. \<^verbatim>\<open>x || null\<close> turns the empty
  string into null.
\<close>

definition or_null :: "string option \<Rightarrow> string option" where
  "or_null note = (case note of None \<Rightarrow> None | Some n \<Rightarrow> if n = [] then None else Some n)"

definition same_day :: "uuid \<Rightarrow> date \<Rightarrow> WorkShift \<Rightarrow> bool" where
  "same_day user_id work_date w = (ws_owner_user_id w = user_id \<and> ws_work_date w = work_date)"

definition overwrite_work_shift :: "uuid \<Rightarrow> uuid \<Rightarrow> string option \<Rightarrow> WorkShift \<Rightarrow> WorkShift" where
  "overwrite_work_shift user_id schedule_id note w =
     w\<lparr>ws_schedule_id := schedule_id, ws_note := or_null note,
       ws_visibility_level := 0, ws_created_by_user_id := user_id\<rparr>"

definition upsert_row ::
  "store \<Rightarrow> uuid \<Rightarrow> uuid \<Rightarrow> date \<Rightarrow> uuid \<Rightarrow> string option \<Rightarrow> WorkShift \<times> store" where
  "upsert_row s new_id user_id work_date schedule_id note =
     (case find (same_day user_id work_date) (work_shifts s) of
        None \<Rightarrow>
          (let w = \<lparr>ws_work_shift_id = new_id, ws_owner_user_id = user_id,
                    ws_work_date = work_date, ws_schedule_id = schedule_id,
                    ws_note = or_null note, ws_visibility_level = 0,
                    ws_created_by_user_id = user_id, ws_deleted_at = None,
                    ws_deleted_by_user_id = None\<rparr>
           in (w, s\<lparr>work_shifts := work_shifts s @ [w]\<rparr>))
      | Some old \<Rightarrow>
          (overwrite_work_shift user_id schedule_id note old,
           s\<lparr>work_shifts :=
               map (\<lambda>w. if same_day user_id work_date w
                         then overwrite_work_shift user_id schedule_id note w else w)
                   (work_shifts s)\<rparr>))"

text \<open>
  \<^verbatim>\<open>sequelize.transaction(async (transaction) => ...)\<close>: the body works on its own copy of
  the tables; a throw rolls back and leaves the committed tables as they were, a return
  commits the copy.
\<close>

definition transaction ::
  "server \<Rightarrow> (store \<Rightarrow> uuid \<Rightarrow> error + ('a \<times> store \<times> uuid)) \<Rightarrow> (error + 'a) \<times> server" where
  "transaction w body =
     (let w1 = w\<lparr>tx_log := tx_log w @ [Begin]\<rparr> in
      case body (committed w1) (next_uuid w1) of
        Inl e \<Rightarrow> (Inl e, w1\<lparr>tx_log := tx_log w1 @ [Rollback]\<rparr>)
      | Inr (r, s', n') \<Rightarrow>
          (Inr r, w1\<lparr>committed := s', next_uuid := n', tx_log := tx_log w1 @ [Commit]\<rparr>))"

subsection \<open>The shift-type registry\<close>

definition MAX_SHIFT_TYPES_PER_TEMPLATE :: nat where
  "MAX_SHIFT_TYPES_PER_TEMPLATE = 10"

record create_data =
  cd_code :: string
  cd_name :: string
  cd_color :: "int option"
  cd_start_time :: "string option"
  cd_end_time :: "string option"
  cd_sort_order :: "int option"

record shift_type_result =
  r_shift_type_id :: uuid
  r_code :: string
  r_name :: string
  r_color :: "int option"
  r_sort_order :: "int option"
  r_start_time :: "string option"
  r_end_time :: "string option"
  r_crosses_midnight :: bool
  r_duration_minutes :: int

text \<open>\<^verbatim>\<open>ShiftType.max("sort_order", ...)\<close>: the greatest non-null value, null when there is
  none.\<close>

definition max_sort_order :: "ShiftType list \<Rightarrow> int option" where
  "max_sort_order sts =
     (case List.map_filter st_sort_order sts of
        [] \<Rightarrow> None
      | x # xs \<Rightarrow> Some (fold max xs x))"

definition shift_type_result_of ::
  "ShiftType \<Rightarrow> string option \<Rightarrow> string option \<Rightarrow> bool \<Rightarrow> int \<Rightarrow> shift_type_result" where
  "shift_type_result_of st start_time end_time crosses duration =
     \<lparr>r_shift_type_id = st_shift_type_id st, r_code = st_code st, r_name = st_name st,
      r_color = st_color st, r_sort_order = st_sort_order st,
      r_start_time = start_time, r_end_time = end_time,
      r_crosses_midnight = crosses, r_duration_minutes = duration\<rparr>"

text \<open>
  The body of \<^verbatim>\<open>createShiftType\<close>, run inside the transaction on the tables \<open>s\<close>;
  \<^verbatim>\<open>getCurrentVersion\<close> is called without the transaction handle and reads the committed
  tables of \<open>w\<close>.
\<close>

definition createShiftType_body ::
  "server \<Rightarrow> uuid \<Rightarrow> create_data \<Rightarrow> store \<Rightarrow> uuid \<Rightarrow>
   error + (shift_type_result \<times> store \<times> uuid)" where
  "createShiftType_body w user_id data s n =
     (case find_active_template s user_id of
        None \<Rightarrow> Inl TEMPLATE_NOT_FOUND
      | Some template \<Rightarrow>
          let current_count = length (live_shift_types s (t_template_id template)) in
          if current_count \<ge> MAX_SHIFT_TYPES_PER_TEMPLATE then Inl MAX_SHIFT_TYPES_EXCEEDED
          else
            let sort_order =
                  (case cd_sort_order data of
                     Some so \<Rightarrow> so
                   | None \<Rightarrow>
                       (case max_sort_order (live_shift_types s (t_template_id template)) of
                          None \<Rightarrow> 0 | Some max_sort \<Rightarrow> max_sort) + 1);
                shift_type =
                  \<lparr>st_shift_type_id = n, st_template_id = t_template_id template,
                   st_code = cd_code data, st_name = cd_name data, st_color = cd_color data,
                   st_sort_order = Some sort_order, st_deleted_at = None\<rparr>;
                both_given = (\<not> falsy (cd_start_time data) \<and> \<not> falsy (cd_end_time data));
                start_time = (if both_given then cd_start_time data else None);
                end_time = (if both_given then cd_end_time data else None);
                time_info =
                  (if both_given then calculateTimeInfo start_time end_time
                   else Some \<lparr>crosses_midnight = False, duration_minutes = 0\<rparr>)
            in
            (case create_shift_type s shift_type of
               Inl e \<Rightarrow> Inl e
             | Inr s1 \<Rightarrow>
                 (case getCurrentVersion (committed w) (t_template_id template) of
                    Inl e \<Rightarrow> Inl e
                  | Inr current_version \<Rightarrow>
                      (case time_info of
                         None \<Rightarrow> Inl NAN_DURATION
                       | Some ti \<Rightarrow>
                           (case create_schedule s1 (n + 1) (st_shift_type_id shift_type)
                                   (v_template_version_id current_version) start_time end_time
                                   (crosses_midnight ti) (duration_minutes ti) of
                              Inl e \<Rightarrow> Inl e
                            | Inr (_, s2) \<Rightarrow>
                                Inr (shift_type_result_of shift_type start_time end_time
                                       (crosses_midnight ti) (duration_minutes ti),
                                     s2, n + 2))))))"

definition createShiftType ::
  "server \<Rightarrow> uuid \<Rightarrow> create_data \<Rightarrow> (error + shift_type_result) \<times> server" where
  "createShiftType w user_id data = transaction w (createShiftType_body w user_id data)"

text \<open>
  The partial update of \<^verbatim>\<open>updateShiftType\<close>: an outer \<open>None\<close> is a field left out
  (\<^verbatim>\<open>undefined\<close>), \<open>Some None\<close> is an explicit null.
\<close>

record update_data =
  ud_code :: "string option"
  ud_name :: "string option"
  ud_color :: "int option option"
  ud_start_time :: "string option option"
  ud_end_time :: "string option option"
  ud_sort_order :: "int option option"

text \<open>\<^verbatim>\<open>ShiftType.findOne\<close> by id among the live rows, joined (\<^verbatim>\<open>required: true\<close>) with its
  template.\<close>

definition find_shift_type_with_template ::
  "store \<Rightarrow> uuid \<Rightarrow> (ShiftType \<times> ShiftTemplate) option" where
  "find_shift_type_with_template s shift_type_id =
     (case find (\<lambda>st. st_shift_type_id st = shift_type_id \<and> st_deleted_at st = None \<and>
                      list_ex (\<lambda>t. t_template_id t = st_template_id st) (shift_templates s))
                (shift_types s) of
        None \<Rightarrow> None
      | Some st \<Rightarrow>
          (case find (\<lambda>t. t_template_id t = st_template_id st) (shift_templates s) of
             None \<Rightarrow> None
           | Some template \<Rightarrow> Some (st, template)))"

definition zero_schedule :: "ShiftTypeSchedule \<Rightarrow> ShiftTypeSchedule" where
  "zero_schedule r =
     r\<lparr>sch_start_time := None, sch_end_time := None,
       sch_crosses_midnight := False, sch_duration_minutes := 0\<rparr>"

definition updateShiftType_body ::
  "server \<Rightarrow> uuid \<Rightarrow> uuid \<Rightarrow> update_data \<Rightarrow> store \<Rightarrow> uuid \<Rightarrow>
   error + (shift_type_result \<times> store \<times> uuid)" where
  "updateShiftType_body w user_id shift_type_id data s n =
     (case find_shift_type_with_template s shift_type_id of
        None \<Rightarrow> Inl SHIFT_TYPE_NOT_FOUND
      | Some (st0, template) \<Rightarrow>
          if t_owner_user_id template \<noteq> user_id then Inl FORBIDDEN
          else
            let shift_type =
                  st0\<lparr>st_code := (case ud_code data of None \<Rightarrow> st_code st0 | Some c \<Rightarrow> c),
                      st_name := (case ud_name data of None \<Rightarrow> st_name st0 | Some c \<Rightarrow> c),
                      st_color := (case ud_color data of None \<Rightarrow> st_color st0 | Some c \<Rightarrow> c),
                      st_sort_order :=
                        (case ud_sort_order data of None \<Rightarrow> st_sort_order st0 | Some c \<Rightarrow> c)\<rparr>
            in
            (case save_shift_type s st0 shift_type of
               Inl e \<Rightarrow> Inl e
             | Inr s1 \<Rightarrow>
            (case getCurrentVersion (committed w) (t_template_id template) of
               Inl e \<Rightarrow> Inl e
             | Inr current_version \<Rightarrow>
                 let existing_schedule =
                       find_schedule s1 shift_type_id (v_template_version_id current_version)
                 in
                 (case (ud_start_time data, ud_end_time data) of
                    (Some new_start, Some new_end) \<Rightarrow>
                      if \<not> falsy new_start \<and> \<not> falsy new_end then
                        (case calculateTimeInfo new_start new_end of
                           None \<Rightarrow> Inl NAN_DURATION
                         | Some ti \<Rightarrow>
                             (case existing_schedule of
                                Some ex \<Rightarrow>
                                  (case save_schedule s1
                                          (ex\<lparr>sch_start_time := new_start, sch_end_time := new_end,
                                              sch_crosses_midnight := crosses_midnight ti,
                                              sch_duration_minutes := duration_minutes ti\<rparr>) of
                                     Inl e \<Rightarrow> Inl e
                                   | Inr s2 \<Rightarrow>
                                       Inr (shift_type_result_of shift_type new_start new_end
                                              (crosses_midnight ti) (duration_minutes ti), s2, n))
                              | None \<Rightarrow>
                                  (case create_schedule s1 n shift_type_id
                                          (v_template_version_id current_version)
                                          new_start new_end
                                          (crosses_midnight ti) (duration_minutes ti) of
                                     Inl e \<Rightarrow> Inl e
                                   | Inr (_, s2) \<Rightarrow>
                                       Inr (shift_type_result_of shift_type new_start new_end
                                              (crosses_midnight ti) (duration_minutes ti),
                                            s2, n + 1))))
                      else
                        (case existing_schedule of
                           Some ex \<Rightarrow>
                             (case find_live_work_shift_using s1 [sch_schedule_id ex] of
                                Some in_use \<Rightarrow>
                                  (case save_schedule s1 (zero_schedule ex) of
                                     Inl e \<Rightarrow> Inl e
                                   | Inr s2 \<Rightarrow>
                                       Inr (shift_type_result_of shift_type None None False 0,
                                            s2, n))
                              | None \<Rightarrow>
                                  (case destroy_schedule s1 ex of
                                     Inl e \<Rightarrow> Inl e
                                   | Inr s2 \<Rightarrow>
                                       Inr (shift_type_result_of shift_type None None False 0,
                                            s2, n)))
                         | None \<Rightarrow>
                             Inr (shift_type_result_of shift_type None None False 0, s1, n))
                  | _ \<Rightarrow>
                      (case existing_schedule of
                         Some ex \<Rightarrow>
                           Inr (shift_type_result_of shift_type
                                  (sch_start_time ex) (sch_end_time ex)
                                  (sch_crosses_midnight ex) (sch_duration_minutes ex), s1, n)
                       | None \<Rightarrow>
                           Inr (shift_type_result_of shift_type None None False 0, s1, n))))))"

definition updateShiftType ::
  "server \<Rightarrow> uuid \<Rightarrow> uuid \<Rightarrow> update_data \<Rightarrow> (error + shift_type_result) \<times> server" where
  "updateShiftType w user_id shift_type_id data =
     transaction w (updateShiftType_body w user_id shift_type_id data)"

text \<open>\<^verbatim>\<open>deleteShiftType\<close>; \<open>now\<close> is the value of \<^verbatim>\<open>new Date()\<close>.\<close>

definition bound_schedule_ids :: "store \<Rightarrow> uuid \<Rightarrow> uuid list" where
  "bound_schedule_ids s shift_type_id =
     map sch_schedule_id
       (filter (\<lambda>r. sch_shift_type_id r = shift_type_id) (shift_type_schedules s))"

definition deleteShiftType_body ::
  "uuid \<Rightarrow> uuid \<Rightarrow> timestamp \<Rightarrow> store \<Rightarrow> uuid \<Rightarrow>
   error + ((uuid \<times> timestamp) \<times> store \<times> uuid)" where
  "deleteShiftType_body user_id shift_type_id now s n =
     (case find_shift_type_with_template s shift_type_id of
        None \<Rightarrow> Inl SHIFT_TYPE_NOT_FOUND
      | Some (shift_type, template) \<Rightarrow>
          if t_owner_user_id template \<noteq> user_id then Inl FORBIDDEN
          else
            let schedule_ids = bound_schedule_ids s shift_type_id in
            if length schedule_ids > 0 \<and> find_live_work_shift_using s schedule_ids \<noteq> None
            then Inl IN_USE
            else
              (case save_shift_type s shift_type (shift_type\<lparr>st_deleted_at := Some now\<rparr>) of
                 Inl e \<Rightarrow> Inl e
               | Inr s1 \<Rightarrow> Inr ((st_shift_type_id shift_type, now), s1, n)))"

definition deleteShiftType ::
  "server \<Rightarrow> uuid \<Rightarrow> uuid \<Rightarrow> timestamp \<Rightarrow> (error + (uuid \<times> timestamp)) \<times> server" where
  "deleteShiftType w user_id shift_type_id now =
     transaction w (deleteShiftType_body user_id shift_type_id now)"

subsection \<open>The work-shift reconciler\<close>

text \<open>
  \<^verbatim>\<open>upsertWorkShift\<close>. It opens no transaction: each write is committed as it happens.
  The shift type is looked up by code among the live rows joined with a live template of
  the caller; the version is the latest one of the caller's first live template. The row
  is written for the local day of \<^verbatim>\<open>new Date(work_date)\<close>.
\<close>

definition find_shift_type_by_code_for_owner :: "store \<Rightarrow> uuid \<Rightarrow> string \<Rightarrow> ShiftType option" where
  "find_shift_type_by_code_for_owner s user_id code =
     find (\<lambda>st. st_code st = code \<and> st_deleted_at st = None \<and>
                 list_ex (\<lambda>t. t_template_id t = st_template_id st \<and>
                               t_owner_user_id t = user_id \<and> t_deleted_at t = None)
                         (shift_templates s))
          (shift_types s)"

text \<open>The schedule of a shift type for a version, created with no times when it is missing
  (the lookup and the create are the same in \<^verbatim>\<open>upsertWorkShift\<close> and in the batch loop).\<close>

definition find_or_create_schedule ::
  "store \<Rightarrow> uuid \<Rightarrow> uuid \<Rightarrow> uuid \<Rightarrow> error + (ShiftTypeSchedule \<times> store)" where
  "find_or_create_schedule s new_id shift_type_id template_version_id =
     (case find_schedule s shift_type_id template_version_id of
        Some schedule \<Rightarrow> Inr (schedule, s)
      | None \<Rightarrow> create_schedule s new_id shift_type_id template_version_id None None False 0)"

definition upsertWorkShift ::
  "server \<Rightarrow> uuid \<Rightarrow> date \<Rightarrow> string \<Rightarrow> string option \<Rightarrow> (error + WorkShift) \<times> server" where
  "upsertWorkShift w user_id work_date shift_type_code note =
     (let s = committed w in
      case find_shift_type_by_code_for_owner s user_id shift_type_code of
        None \<Rightarrow> (Inl SHIFT_TYPE_NOT_FOUND, w)
      | Some shift_type \<Rightarrow>
          (case find_active_template s user_id of
             None \<Rightarrow> (Inl TEMPLATE_NOT_FOUND, w)
           | Some template \<Rightarrow>
               (case find_latest_version s (t_template_id template) of
                  None \<Rightarrow> (Inl TEMPLATE_NOT_FOUND, w)
                | Some latest_version \<Rightarrow>
                    (case find_or_create_schedule s (next_uuid w) (st_shift_type_id shift_type)
                            (v_template_version_id latest_version) of
                       Inl e \<Rightarrow> (Inl e, w)
                     | Inr (schedule, s1) \<Rightarrow>
                         (let (work_shift, s2) =
                                upsert_row s1 (next_uuid w + 1) user_id
                                  (local_day (tz_offset w) work_date)
                                  (sch_schedule_id schedule) note
                          in (Inr work_shift,
                              w\<lparr>committed := s2, next_uuid := next_uuid w + 2\<rparr>))))))"

text \<open>\<^verbatim>\<open>batchUpsertWorkShifts\<close>: the entries of the request.\<close>

record entry =
  e_work_date :: date
  e_shift_type_code :: string
  e_note :: "string option"

text \<open>\<^verbatim>\<open>dates.indexOf(date)\<close>: the first position, \<open>-1\<close> when there is none.\<close>

fun index_of :: "'a list \<Rightarrow> 'a \<Rightarrow> int" where
  "index_of [] x = - 1"
| "index_of (y # ys) x =
     (if y = x then 0 else (let i = index_of ys x in if i < 0 then - 1 else i + 1))"

text \<open>\<^verbatim>\<open>dates.filter((date, index) => dates.indexOf(date) !== index)\<close>.\<close>

definition duplicate_dates :: "'a list \<Rightarrow> 'a list" where
  "duplicate_dates dates =
     map fst (filter (\<lambda>(date, index). index_of dates date \<noteq> int index)
                     (zip dates [0..<length dates]))"

text \<open>\<^verbatim>\<open>[...new Set(xs)]\<close>: the elements in the order of their first occurrence.\<close>

definition js_set :: "'a list \<Rightarrow> 'a list" where
  "js_set xs = fold (\<lambda>x acc. if x \<in> set acc then acc else acc @ [x]) xs []"

text \<open>
  Step 4-2 of the loop: the version in force on the entry's day, with the fall-back to the
  latest version and the error when the template has no version. The day compared is
  \<^verbatim>\<open>work_date_obj\<close>, the local day of the entry's \<^verbatim>\<open>work_date\<close>; the error carries the
  \<^verbatim>\<open>work_date\<close> of the request.
\<close>

definition valid_version ::
  "store \<Rightarrow> int \<Rightarrow> uuid \<Rightarrow> date \<Rightarrow> error + ShiftTemplateVersion" where
  "valid_version s offset template_id work_date =
     (let work_date_obj = local_day offset work_date in
      case latest_by_effective_from
             (filter (\<lambda>v. v_template_id v = template_id \<and> v_effective_from v \<le> work_date_obj)
                     (shift_template_versions s)) of
        Some v \<Rightarrow> Inr v
      | None \<Rightarrow>
          (case find_latest_version s template_id of
             Some v \<Rightarrow> Inr v
           | None \<Rightarrow> Inl (TEMPLATE_VERSION_NOT_FOUND work_date)))"

definition find_shift_type_by_code :: "store \<Rightarrow> uuid \<Rightarrow> string \<Rightarrow> ShiftType option" where
  "find_shift_type_by_code s template_id code =
     find (\<lambda>st. st_code st = code \<and> st_template_id st = template_id \<and> st_deleted_at st = None)
          (shift_types s)"

text \<open>One round of the loop, on the transaction's tables; \<open>offset\<close> is the process's
  time zone.\<close>

definition process_entry ::
  "int \<Rightarrow> ShiftTemplate \<Rightarrow> uuid \<Rightarrow> entry \<Rightarrow> store \<Rightarrow> uuid \<Rightarrow>
   error + (WorkShift \<times> store \<times> uuid)" where
  "process_entry offset template user_id ws s n =
     (case find_shift_type_by_code s (t_template_id template) (e_shift_type_code ws) of
        None \<Rightarrow> Inl (INVALID_SHIFT_TYPE (e_shift_type_code ws) (e_work_date ws))
      | Some shift_type \<Rightarrow>
          (case valid_version s offset (t_template_id template) (e_work_date ws) of
             Inl e \<Rightarrow> Inl e
           | Inr version \<Rightarrow>
               (case find_or_create_schedule s n (st_shift_type_id shift_type)
                       (v_template_version_id version) of
                  Inl e \<Rightarrow> Inl e
                | Inr (schedule, s1) \<Rightarrow>
                    (let (work_shift, s2) =
                           upsert_row s1 (n + 1) user_id (local_day offset (e_work_date ws))
                             (sch_schedule_id schedule) (e_note ws)
                     in Inr (work_shift, s2, n + 2)))))"

fun process_entries ::
  "int \<Rightarrow> ShiftTemplate \<Rightarrow> uuid \<Rightarrow> entry list \<Rightarrow> store \<Rightarrow> uuid \<Rightarrow> WorkShift list \<Rightarrow>
   error + (WorkShift list \<times> store \<times> uuid)" where
  "process_entries offset template user_id [] s n saved = Inr (saved, s, n)"
| "process_entries offset template user_id (ws # rest) s n saved =
     (case process_entry offset template user_id ws s n of
        Inl e \<Rightarrow> Inl e
      | Inr (work_shift, s', n') \<Rightarrow>
          process_entries offset template user_id rest s' n' (saved @ [work_shift]))"

text \<open>The rows of the response: the saved work shifts read back with their schedule and
  shift type (both joins \<^verbatim>\<open>required: true\<close>).\<close>

record work_shift_detail =
  d_work_shift_id :: uuid
  d_work_date :: date
  d_shift_type_code :: string
  d_shift_type_name :: string
  d_shift_type_color :: "int option"
  d_start_time :: "string option"
  d_end_time :: "string option"
  d_note :: "string option"

definition work_shift_details :: "store \<Rightarrow> uuid list \<Rightarrow> work_shift_detail list" where
  "work_shift_details s work_shift_ids =
     List.map_filter
       (\<lambda>w. case find (\<lambda>r. sch_schedule_id r = ws_schedule_id w) (shift_type_schedules s) of
               None \<Rightarrow> None
             | Some schedule \<Rightarrow>
                 (case find (\<lambda>st. st_shift_type_id st = sch_shift_type_id schedule)
                            (shift_types s) of
                    None \<Rightarrow> None
                  | Some shift_type \<Rightarrow>
                      Some \<lparr>d_work_shift_id = ws_work_shift_id w, d_work_date = ws_work_date w,
                            d_shift_type_code = st_code shift_type,
                            d_shift_type_name = st_name shift_type,
                            d_shift_type_color = st_color shift_type,
                            d_start_time = or_null (sch_start_time schedule),
                            d_end_time = or_null (sch_end_time schedule),
                            d_note = or_null (ws_note w)\<rparr>))
       (filter (\<lambda>w. ws_work_shift_id w \<in> set work_shift_ids) (work_shifts s))"

text \<open>
  \<^verbatim>\<open>batchUpsertWorkShifts\<close>: the duplicate check and the template lookup come before
  \<^verbatim>\<open>sequelize.transaction()\<close>; the loop runs on the transaction's tables; the
  \<^verbatim>\<open>catch\<close> rolls back and throws the error again.
\<close>

definition batchUpsertWorkShifts ::
  "server \<Rightarrow> uuid \<Rightarrow> entry list \<Rightarrow> (error + work_shift_detail list) \<times> server" where
  "batchUpsertWorkShifts w user_id work_shifts_in =
     (let dates = map e_work_date work_shifts_in;
          unique_dates = js_set dates
      in
      if length dates \<noteq> length unique_dates
      then (Inl (DUPLICATE_DATE (js_set (duplicate_dates dates))), w)
      else
        (case find_active_template (committed w) user_id of
           None \<Rightarrow> (Inl TEMPLATE_NOT_FOUND, w)
         | Some template \<Rightarrow>
             (let w1 = w\<lparr>tx_log := tx_log w @ [Begin]\<rparr> in
              case process_entries (tz_offset w1) template user_id work_shifts_in
                     (committed w1) (next_uuid w1) [] of
                Inl e \<Rightarrow> (Inl e, w1\<lparr>tx_log := tx_log w1 @ [Rollback]\<rparr>)
              | Inr (saved_work_shifts, s', n') \<Rightarrow>
                  (let w2 = w1\<lparr>committed := s', next_uuid := n',
                               tx_log := tx_log w1 @ [Commit]\<rparr>
                   in (Inr (work_shift_details (committed w2)
                              (map ws_work_shift_id saved_work_shifts)), w2)))))"

subsection \<open>Specification predicates and sample data\<close>

text \<open>
  What a valid time string denotes: \<open>hhmm h m\<close> is the two-digit hour, a colon and the
  two-digit minute; \<open>seconds_part rest\<close> lets a seconds part (or nothing) follow it, as in
  the stored \<^verbatim>\<open>HH:mm:ss\<close> values.
\<close>

definition two_digits :: "nat \<Rightarrow> string" where
  "two_digits n = [char_of (48 + n div 10), char_of (48 + n mod 10)]"

definition hhmm :: "nat \<Rightarrow> nat \<Rightarrow> string" where
  "hhmm h m = two_digits h @ '':'' @ two_digits m"

definition seconds_part :: "string \<Rightarrow> bool" where
  "seconds_part rest = (case rest of [] \<Rightarrow> True | c # _ \<Rightarrow> c = CHR '':'')"


text \<open>
  The condition of the usage guard in the words of the specification: some live work shift
  references some schedule bound to the shift type, whatever the version.
\<close>

definition shift_type_in_use :: "store \<Rightarrow> uuid \<Rightarrow> bool" where
  "shift_type_in_use s shift_type_id =
     list_ex (\<lambda>ws. ws_deleted_at ws = None \<and>
                list_ex (\<lambda>sch. sch_shift_type_id sch = shift_type_id \<and>
                                sch_schedule_id sch = ws_schedule_id ws)
                        (shift_type_schedules s))
             (work_shifts s)"

text \<open>Two calls of \<^verbatim>\<open>upsertWorkShift\<close> for the same owner and day, one after the other.\<close>

definition upsert_twice ::
  "server \<Rightarrow> uuid \<Rightarrow> date \<Rightarrow> string \<Rightarrow> string option \<Rightarrow> string \<Rightarrow> string option \<Rightarrow>
   (error + WorkShift) \<times> server" where
  "upsert_twice w user_id work_date code1 note1 code2 note2 =
     upsertWorkShift (snd (upsertWorkShift w user_id work_date code1 note1))
       user_id work_date code2 note2"

text \<open>
  A small server for the concrete checks: user 100 owns template 1, which has version 11
  in force from day 10 and version 12 in force from day 20, and the shift type \<open>D\<close> with a
  schedule for version 11 only.
\<close>

definition ex_template :: ShiftTemplate where
  "ex_template =
     \<lparr>t_template_id = 1, t_owner_user_id = 100, t_name = ''T'', t_deleted_at = None\<rparr>"

definition ex_v1 :: ShiftTemplateVersion where
  "ex_v1 =
     \<lparr>v_template_version_id = 11, v_template_id = 1, v_version_no = 1,
      v_effective_from = 10, v_created_by_user_id = 100\<rparr>"

definition ex_v2 :: ShiftTemplateVersion where
  "ex_v2 =
     \<lparr>v_template_version_id = 12, v_template_id = 1, v_version_no = 2,
      v_effective_from = 20, v_created_by_user_id = 100\<rparr>"

definition ex_shift_type :: ShiftType where
  "ex_shift_type =
     \<lparr>st_shift_type_id = 21, st_template_id = 1, st_code = ''D'', st_name = ''Day'',
      st_color = None, st_sort_order = Some 1, st_deleted_at = None\<rparr>"

definition ex_schedule :: ShiftTypeSchedule where
  "ex_schedule =
     \<lparr>sch_schedule_id = 31, sch_shift_type_id = 21, sch_template_version_id = 11,
      sch_start_time = Some ''06:30:00'', sch_end_time = Some ''15:00:00'',
      sch_crosses_midnight = False, sch_duration_minutes = 510\<rparr>"

definition ex_store :: store where
  "ex_store =
     \<lparr>shift_templates = [ex_template],
      shift_template_versions = [ex_v1, ex_v2],
      shift_types = [ex_shift_type],
      shift_type_schedules = [ex_schedule],
      work_shifts = []\<rparr>"

definition ex_server :: server where
  "ex_server = \<lparr>committed = ex_store, tx_log = [], next_uuid = 1000, tz_offset = 540\<rparr>"

definition ex_entry :: "date \<Rightarrow> string \<Rightarrow> entry" where
  "ex_entry d c = \<lparr>e_work_date = d, e_shift_type_code = c, e_note = None\<rparr>"


text \<open>
  Variations of the sample server: ten live shift types; a live work shift on day 15; the
  same work shift soft-deleted; a schedule for the current version 12, referenced by no
  work shift, and referenced by a soft-deleted work shift only.
\<close>

definition ex_full_store :: store where
  "ex_full_store =
     ex_store\<lparr>shift_types :=
       map (\<lambda>i. ex_shift_type\<lparr>st_shift_type_id := i\<rparr>) [21, 22, 23, 24, 25, 26, 27, 28, 29, 30]\<rparr>"

definition ex_create_data :: create_data where
  "ex_create_data =
     \<lparr>cd_code = ''N'', cd_name = ''Night'', cd_color = None,
      cd_start_time = Some ''22:30:00'', cd_end_time = Some ''07:00:00'',
      cd_sort_order = None\<rparr>"

definition ex_update_data :: update_data where
  "ex_update_data =
     \<lparr>ud_code = None, ud_name = None, ud_color = None,
      ud_start_time = None, ud_end_time = None, ud_sort_order = None\<rparr>"

definition ex_work_shift :: WorkShift where
  "ex_work_shift =
     \<lparr>ws_work_shift_id = 41, ws_owner_user_id = 100, ws_work_date = 15, ws_schedule_id = 31,
      ws_note = None, ws_visibility_level = 0, ws_created_by_user_id = 100,
      ws_deleted_at = None, ws_deleted_by_user_id = None\<rparr>"

definition ex_used_server :: server where
  "ex_used_server = ex_server\<lparr>committed := ex_store\<lparr>work_shifts := [ex_work_shift]\<rparr>\<rparr>"

definition ex_deleted_server :: server where
  "ex_deleted_server =
     ex_server\<lparr>committed := ex_store\<lparr>work_shifts :=
       [ex_work_shift\<lparr>ws_deleted_at := Some 7, ws_deleted_by_user_id := Some 100\<rparr>]\<rparr>\<rparr>"

definition ex_schedule2 :: ShiftTypeSchedule where
  "ex_schedule2 =
     \<lparr>sch_schedule_id = 32, sch_shift_type_id = 21, sch_template_version_id = 12,
      sch_start_time = Some ''07:00:00'', sch_end_time = Some ''15:30:00'',
      sch_crosses_midnight = False, sch_duration_minutes = 510\<rparr>"

definition ex_timed_server :: server where
  "ex_timed_server =
     ex_server\<lparr>committed := ex_store\<lparr>shift_type_schedules := [ex_schedule, ex_schedule2]\<rparr>\<rparr>"

definition ex_timed_deleted_server :: server where
  "ex_timed_deleted_server =
     ex_server\<lparr>committed := ex_store\<lparr>shift_type_schedules := [ex_schedule, ex_schedule2],
       work_shifts := [ex_work_shift\<lparr>ws_schedule_id := 32, ws_deleted_at := Some 7,
                                      ws_deleted_by_user_id := Some 100\<rparr>]\<rparr>\<rparr>"

subsection \<open>Parsing lemmas\<close>

lemma js_number_two_digits: "n < 100 \<Longrightarrow> js_number (two_digits n) = Some n"
  by (simp add: js_number_def two_digits_def is_digit_def) arith

lemma colon_not_in_two_digits: "n < 100 \<Longrightarrow> CHR '':'' \<notin> set (two_digits n)"
proof -
  assume "n < 100"
  then have "n div 10 \<le> 9" "n mod 10 \<le> 9" by arith+
  then have "(48 + n div 10) mod 256 \<noteq> 58" "(48 + n mod 10) mod 256 \<noteq> 58" by auto
  then have "of_char (char_of (48 + n div 10)) \<noteq> (58::nat)"
    and "of_char (char_of (48 + n mod 10)) \<noteq> (58::nat)" by simp_all
  moreover have "of_char CHR '':'' = (58::nat)" by simp
  ultimately have "char_of (48 + n div 10) \<noteq> CHR '':''" "char_of (48 + n mod 10) \<noteq> CHR '':''"
    by metis+
  then show ?thesis by (simp add: two_digits_def)
qed

lemma hhmm_examples:
  "hhmm 22 30 = ''22:30''" "hhmm 7 0 = ''07:00''" "hhmm 6 30 = ''06:30''"
  "hhmm 15 0 = ''15:00''" "hhmm 14 30 = ''14:30''" "hhmm 23 0 = ''23:00''"
  "hhmm 9 0 = ''09:00''"
  by code_simp+

lemma split_on_no_sep: "sep \<notin> set s \<Longrightarrow> split_on sep s = [s]"
  by (induction s) auto

lemma split_on_append: "sep \<notin> set a \<Longrightarrow> split_on sep (a @ sep # b) = a # split_on sep b"
  by (induction a) auto

lemma split_on_seconds_part:
  "sep \<notin> set a \<Longrightarrow> rest = [] \<or> hd rest = sep \<and> rest \<noteq> [] \<Longrightarrow>
   \<exists>ps. split_on sep (a @ rest) = a # ps"
  by (cases rest) (auto simp: split_on_no_sep split_on_append)

lemma total_minutes_hhmm:
  assumes "h < 100" "m < 100" "seconds_part rest"
  shows "total_minutes (hhmm h m @ rest) = Some (h * 60 + m)"
proof -
  have r: "rest = [] \<or> hd rest = CHR '':'' \<and> rest \<noteq> []"
    using assms(3) by (auto simp: seconds_part_def split: list.splits)
  obtain ps where ps: "split_on CHR '':'' (two_digits m @ rest) = two_digits m # ps"
    using split_on_seconds_part [OF colon_not_in_two_digits [OF assms(2)] r] by blast
  have "split_on CHR '':'' (hhmm h m @ rest) = two_digits h # two_digits m # ps"
    using split_on_append [OF colon_not_in_two_digits [OF assms(1)], of "two_digits m @ rest"] ps
    by (simp add: hhmm_def)
  then show ?thesis
    using assms by (simp add: total_minutes_def js_number_two_digits)
qed

lemma falsy_hhmm: "\<not> falsy (Some (hhmm h m @ rest))"
  by (simp add: falsy_def hhmm_def two_digits_def)

lemma calculateTimeInfo_hhmm:
  assumes "h1 < 100" "m1 < 100" "h2 < 100" "m2 < 100" "seconds_part r1" "seconds_part r2"
  shows "calculateTimeInfo (Some (hhmm h1 m1 @ r1)) (Some (hhmm h2 m2 @ r2)) =
     Some \<lparr>crosses_midnight = (h1 * 60 + m1 > h2 * 60 + m2),
           duration_minutes =
             (if h1 * 60 + m1 > h2 * 60 + m2
              then 1440 - int (h1 * 60 + m1) + int (h2 * 60 + m2)
              else int (h2 * 60 + m2) - int (h1 * 60 + m1))\<rparr>"
  using assms
  by (simp add: calculateTimeInfo_def falsy_hhmm total_minutes_hhmm Let_def)

subsection \<open>Claims about the time computation\<close>

text \<open>
  C4. For every pair of valid times, start \<open>h1:m1\<close> and end \<open>h2:m2\<close> (hours below 24,
  minutes below 60, written \<^verbatim>\<open>HH:MM\<close> with or without a seconds part),
  \<^verbatim>\<open>calculateTimeInfo\<close> returns \<open>crosses_midnight = (start_minutes > end_minutes)\<close> and
  \<open>duration_minutes = 1440 - start_minutes + end_minutes\<close> when crossing midnight, else
  \<open>end_minutes - start_minutes\<close>; and the two examples of the specification,
  22:30 to 07:00 and 06:30 to 15:00, both give 510 minutes, the first crossing midnight.
\<close>

theorem calculateTimeInfo_valid_times:
  "(h1 < 24 \<and> m1 < 60 \<and> h2 < 24 \<and> m2 < 60 \<and> seconds_part r1 \<and> seconds_part r2 \<longrightarrow>
      calculateTimeInfo (Some (hhmm h1 m1 @ r1)) (Some (hhmm h2 m2 @ r2)) =
        Some \<lparr>crosses_midnight = (h1 * 60 + m1 > h2 * 60 + m2),
              duration_minutes =
                (if h1 * 60 + m1 > h2 * 60 + m2
                 then 1440 - int (h1 * 60 + m1) + int (h2 * 60 + m2)
                 else int (h2 * 60 + m2) - int (h1 * 60 + m1))\<rparr>)
   \<and> calculateTimeInfo (Some ''22:30'') (Some ''07:00'') =
        Some \<lparr>crosses_midnight = True, duration_minutes = 510\<rparr>
   \<and> calculateTimeInfo (Some ''06:30'') (Some ''15:00'') =
        Some \<lparr>crosses_midnight = False, duration_minutes = 510\<rparr>"
proof (intro conjI impI)
  assume "h1 < 24 \<and> m1 < 60 \<and> h2 < 24 \<and> m2 < 60 \<and> seconds_part r1 \<and> seconds_part r2"
  then show "calculateTimeInfo (Some (hhmm h1 m1 @ r1)) (Some (hhmm h2 m2 @ r2)) =
        Some \<lparr>crosses_midnight = (h1 * 60 + m1 > h2 * 60 + m2),
              duration_minutes =
                (if h1 * 60 + m1 > h2 * 60 + m2
                 then 1440 - int (h1 * 60 + m1) + int (h2 * 60 + m2)
                 else int (h2 * 60 + m2) - int (h1 * 60 + m1))\<rparr>"
    by (intro calculateTimeInfo_hhmm) auto
next
  have "calculateTimeInfo (Some (hhmm 22 30 @ [])) (Some (hhmm 7 0 @ [])) =
        Some \<lparr>crosses_midnight = True, duration_minutes = 510\<rparr>"
    by (subst calculateTimeInfo_hhmm) (simp_all add: seconds_part_def)
  then show "calculateTimeInfo (Some ''22:30'') (Some ''07:00'') =
        Some \<lparr>crosses_midnight = True, duration_minutes = 510\<rparr>"
    by (simp add: hhmm_examples)
next
  have "calculateTimeInfo (Some (hhmm 6 30 @ [])) (Some (hhmm 15 0 @ [])) =
        Some \<lparr>crosses_midnight = False, duration_minutes = 510\<rparr>"
    by (subst calculateTimeInfo_hhmm) (simp_all add: seconds_part_def)
  then show "calculateTimeInfo (Some ''06:30'') (Some ''15:00'') =
        Some \<lparr>crosses_midnight = False, duration_minutes = 510\<rparr>"
    by (simp add: hhmm_examples)
qed

theorem calculateTimeInfo_valid_times_witness:
  "(14::nat) < 24 \<and> (30::nat) < 60 \<and> (23::nat) < 24 \<and> (0::nat) < 60
   \<and> seconds_part '':00'' \<and> hhmm 14 30 @ '':00'' = ''14:30:00'' \<and> hhmm 23 0 @ '':00'' = ''23:00:00''
   \<and> calculateTimeInfo (Some ''14:30:00'') (Some ''23:00:00'') =
        Some \<lparr>crosses_midnight = False, duration_minutes = 510\<rparr>"
  using calculateTimeInfo_valid_times [of 14 30 23 0 "'':00''" "'':00''"]
  by (simp add: seconds_part_def hhmm_examples)

text \<open>
  C10. When start and end are the same string and the result is a number at all, the
  result is \<open>crosses_midnight = False\<close> and \<open>duration_minutes = 0\<close>; for a valid time it
  is a number, so equal valid times give a zero-length shift that does not cross midnight;
  and for no pair of valid times is the duration 1440 minutes (it stays below), so a
  24-hour shift cannot be expressed.
\<close>

theorem calculateTimeInfo_equal_times:
  "(calculateTimeInfo (Some s) (Some s) = Some ti0 \<longrightarrow>
      crosses_midnight ti0 = False \<and> duration_minutes ti0 = 0)
   \<and> (h < 24 \<and> m < 60 \<and> seconds_part r \<longrightarrow>
     calculateTimeInfo (Some (hhmm h m @ r)) (Some (hhmm h m @ r)) =
       Some \<lparr>crosses_midnight = False, duration_minutes = 0\<rparr>
     \<and> (\<forall>h2 m2 r2 ti. h2 < 24 \<and> m2 < 60 \<and> seconds_part r2 \<and>
           calculateTimeInfo (Some (hhmm h m @ r)) (Some (hhmm h2 m2 @ r2)) = Some ti
           \<longrightarrow> 0 \<le> duration_minutes ti \<and> duration_minutes ti < 1440))"
proof (intro impI conjI allI)
  assume "calculateTimeInfo (Some s) (Some s) = Some ti0"
  then show "crosses_midnight ti0 = False" and "duration_minutes ti0 = 0"
    by (auto simp: calculateTimeInfo_def Let_def split: if_splits option.splits)
next
  assume a: "h < 24 \<and> m < 60 \<and> seconds_part r"
  then show "calculateTimeInfo (Some (hhmm h m @ r)) (Some (hhmm h m @ r)) =
       Some \<lparr>crosses_midnight = False, duration_minutes = 0\<rparr>"
    by (subst calculateTimeInfo_hhmm) simp_all
next
  fix h2 m2 r2 ti
  assume a: "h < 24 \<and> m < 60 \<and> seconds_part r"
    and b: "h2 < 24 \<and> m2 < 60 \<and> seconds_part r2 \<and>
           calculateTimeInfo (Some (hhmm h m @ r)) (Some (hhmm h2 m2 @ r2)) = Some ti"
  have "calculateTimeInfo (Some (hhmm h m @ r)) (Some (hhmm h2 m2 @ r2)) =
     Some \<lparr>crosses_midnight = (h * 60 + m > h2 * 60 + m2),
           duration_minutes =
             (if h * 60 + m > h2 * 60 + m2
              then 1440 - int (h * 60 + m) + int (h2 * 60 + m2)
              else int (h2 * 60 + m2) - int (h * 60 + m))\<rparr>"
    using a b by (intro calculateTimeInfo_hhmm) auto
  with b have ti: "duration_minutes ti =
             (if h * 60 + m > h2 * 60 + m2
              then 1440 - int (h * 60 + m) + int (h2 * 60 + m2)
              else int (h2 * 60 + m2) - int (h * 60 + m))"
    by auto
  show "0 \<le> duration_minutes ti" using a b ti by (auto split: if_splits)
  show "duration_minutes ti < 1440" using a b ti by (auto split: if_splits)
qed

theorem calculateTimeInfo_equal_times_witness:
  "(9::nat) < 24 \<and> (0::nat) < 60 \<and> seconds_part [] \<and> hhmm 9 0 @ [] = ''09:00''
   \<and> calculateTimeInfo (Some ''09:00'') (Some ''09:00'') =
       Some \<lparr>crosses_midnight = False, duration_minutes = 0\<rparr>
   \<and> calculateTimeInfo (Some ''23:59:00'') (Some ''23:59:00'') =
       Some \<lparr>crosses_midnight = False, duration_minutes = 0\<rparr>"
proof -
  have e: "calculateTimeInfo (Some ''23:59:00'') (Some ''23:59:00'') =
       Some \<lparr>crosses_midnight = False, duration_minutes = 0\<rparr>"
    by code_simp
  from calculateTimeInfo_equal_times
    [where s = "''23:59:00''" and ?ti0.0 = "\<lparr>crosses_midnight = False, duration_minutes = 0\<rparr>"
       and h = 9 and m = 0 and r = "[]"] e
  show ?thesis by (simp add: seconds_part_def hhmm_examples)
qed

subsection \<open>Lemmas about queries and writes\<close>

lemma latest_None: "latest_by_effective_from vs = None \<longleftrightarrow> vs = []"
  by (induction vs) (auto split: option.splits)

lemma latest_Some:
  "latest_by_effective_from vs = Some v \<Longrightarrow>
   v \<in> set vs \<and> (\<forall>u\<in>set vs. v_effective_from u \<le> v_effective_from v)"
proof (induction vs arbitrary: v)
  case Nil
  then show ?case by simp
next
  case (Cons a vs)
  show ?case
  proof (cases "latest_by_effective_from vs")
    case None
    then have "vs = []" by (simp add: latest_None)
    with Cons.prems None show ?thesis by simp
  next
    case (Some w)
    from Cons.IH [OF Some] have w: "w \<in> set vs" "\<forall>u\<in>set vs. v_effective_from u \<le> v_effective_from w"
      by auto
    show ?thesis
    proof (cases "v_effective_from a < v_effective_from w")
      case True
      with Cons.prems Some have "v = w" by simp
      with w True show ?thesis by auto
    next
      case False
      with Cons.prems Some have "v = a" by simp
      with w False show ?thesis by fastforce
    qed
  qed
qed

lemma valid_version_cases:
  "(case valid_version s off tid d of
      Inr v \<Rightarrow>
        v \<in> set (shift_template_versions s) \<and> v_template_id v = tid \<and>
        (if \<exists>u\<in>set (shift_template_versions s).
               v_template_id u = tid \<and> v_effective_from u \<le> local_day off d
         then v_effective_from v \<le> local_day off d \<and>
              (\<forall>u\<in>set (shift_template_versions s).
                  v_template_id u = tid \<and> v_effective_from u \<le> local_day off d \<longrightarrow>
                  v_effective_from u \<le> v_effective_from v)
         else (\<forall>u\<in>set (shift_template_versions s).
                  v_template_id u = tid \<longrightarrow> v_effective_from u \<le> v_effective_from v))
    | Inl e \<Rightarrow>
        e = TEMPLATE_VERSION_NOT_FOUND d \<and>
        \<not> (\<exists>u\<in>set (shift_template_versions s). v_template_id u = tid))"
proof (cases "latest_by_effective_from
             (filter (\<lambda>v. v_template_id v = tid \<and> v_effective_from v \<le> local_day off d)
                     (shift_template_versions s))")
  case (Some v)
  from latest_Some [OF Some] Some show ?thesis
    by (auto simp: valid_version_def)
next
  case None
  then have empty: "filter (\<lambda>v. v_template_id v = tid \<and> v_effective_from v \<le> local_day off d)
                     (shift_template_versions s) = []"
    by (simp add: latest_None)
  then have none: "\<not> (\<exists>u\<in>set (shift_template_versions s).
      v_template_id u = tid \<and> v_effective_from u \<le> local_day off d)"
    by (auto simp: filter_empty_conv)
  show ?thesis
  proof (cases "find_latest_version s tid")
    case None2: None
    then have "filter (\<lambda>v. v_template_id v = tid) (shift_template_versions s) = []"
      by (simp add: find_latest_version_def latest_None)
    then have "\<not> (\<exists>u\<in>set (shift_template_versions s). v_template_id u = tid)"
      by (auto simp: filter_empty_conv)
    with None None2 show ?thesis by (simp add: valid_version_def)
  next
    case (Some v)
    from latest_Some [OF Some [unfolded find_latest_version_def]] 
    have "v \<in> set (shift_template_versions s)" "v_template_id v = tid"
      "\<forall>u\<in>set (shift_template_versions s). v_template_id u = tid \<longrightarrow> v_effective_from u \<le> v_effective_from v"
      by auto
    with None Some none show ?thesis by (simp add: valid_version_def)
  qed
qed



lemma schedule_valid_default:
  "schedule_valid \<lparr>sch_schedule_id = i, sch_shift_type_id = a, sch_template_version_id = b,
     sch_start_time = None, sch_end_time = None, sch_crosses_midnight = False,
     sch_duration_minutes = 0\<rparr>"
  by (simp add: schedule_valid_def)

lemma find_snoc:
  "find P (xs @ [y]) = (case find P xs of None \<Rightarrow> (if P y then Some y else None) | Some x \<Rightarrow> Some x)"
  by (induction xs) auto

lemma find_or_create_schedule_Inr:
  "\<exists>sch s1. find_or_create_schedule s n a b = Inr (sch, s1)"
  by (simp add: find_or_create_schedule_def create_schedule_def schedule_valid_default integer4_def Let_def
      split: option.splits)

lemma find_or_create_schedule_props:
  assumes "find_or_create_schedule s n a b = Inr (sch, s1)"
  shows "sch \<in> set (shift_type_schedules s1)"
    and "sch_shift_type_id sch = a" and "sch_template_version_id sch = b"
    and "set (shift_type_schedules s) \<subseteq> set (shift_type_schedules s1)"
    and "shift_templates s1 = shift_templates s"
    and "shift_template_versions s1 = shift_template_versions s"
    and "shift_types s1 = shift_types s"
    and "work_shifts s1 = work_shifts s"
    and "find_schedule s1 a b = Some sch"
proof -
  show "sch \<in> set (shift_type_schedules s1)"
    using assms
    by (auto simp: find_or_create_schedule_def create_schedule_def find_schedule_def
        schedule_valid_default integer4_def Let_def split: option.splits dest: find_Some_iff [THEN iffD1])
  show "sch_shift_type_id sch = a" "sch_template_version_id sch = b"
    using assms
    by (auto simp: find_or_create_schedule_def create_schedule_def find_schedule_def
        schedule_valid_default integer4_def Let_def find_Some_iff split: option.splits)
  show "set (shift_type_schedules s) \<subseteq> set (shift_type_schedules s1)"
    "shift_templates s1 = shift_templates s"
    "shift_template_versions s1 = shift_template_versions s"
    "shift_types s1 = shift_types s"
    "work_shifts s1 = work_shifts s"
    using assms
    by (auto simp: find_or_create_schedule_def create_schedule_def 
        schedule_valid_default integer4_def Let_def split: option.splits)
  show "find_schedule s1 a b = Some sch"
    using assms
    by (auto simp: find_or_create_schedule_def create_schedule_def find_schedule_def
        schedule_valid_default integer4_def Let_def find_snoc split: option.splits)
qed

lemma upsert_row_props:
  assumes "upsert_row s n u d sid note = (ws, s2)"
  shows "ws \<in> set (work_shifts s2)"
    and "same_day u d ws"
    and "ws_schedule_id ws = sid"
    and "ws_note ws = or_null note"
    and "shift_templates s2 = shift_templates s"
    and "shift_template_versions s2 = shift_template_versions s"
    and "shift_types s2 = shift_types s"
    and "shift_type_schedules s2 = shift_type_schedules s"
proof -
  show "ws \<in> set (work_shifts s2)"
  proof (cases "find (same_day u d) (work_shifts s)")
    case None
    with assms show ?thesis by (auto simp: upsert_row_def Let_def)
  next
    case (Some old)
    then have "old \<in> set (work_shifts s)" "same_day u d old"
      by (auto simp: find_Some_iff)
    with Some assms show ?thesis
      by (auto simp: upsert_row_def image_iff intro!: bexI [of _ old])
  qed
  show "same_day u d ws" "ws_schedule_id ws = sid" "ws_note ws = or_null note"
    using assms
    by (auto simp: upsert_row_def Let_def same_day_def overwrite_work_shift_def find_Some_iff
        split: option.splits)
  show "shift_templates s2 = shift_templates s"
    "shift_template_versions s2 = shift_template_versions s"
    "shift_types s2 = shift_types s"
    "shift_type_schedules s2 = shift_type_schedules s"
    using assms by (auto simp: upsert_row_def Let_def split: option.splits)
qed

lemma same_day_overwrite:
  "same_day u d (overwrite_work_shift u' sid note w) = same_day u d w"
  by (simp add: same_day_def overwrite_work_shift_def)

lemma upsert_row_other_days:
  assumes "upsert_row s n u d sid note = (ws, s2)" "\<not> same_day u d x"
  shows "x \<in> set (work_shifts s2) \<longleftrightarrow> x \<in> set (work_shifts s)"
proof (cases "find (same_day u d) (work_shifts s)")
  case None
  with assms have "work_shifts s2 = work_shifts s @ [ws]" "same_day u d ws"
    by (auto simp: upsert_row_def Let_def same_day_def)
  with assms(2) show ?thesis by auto
next
  case (Some old)
  with assms have "work_shifts s2 = map (\<lambda>w. if same_day u d w
                         then overwrite_work_shift u sid note w else w) (work_shifts s)"
    by (auto simp: upsert_row_def)
  with assms(2) show ?thesis by (auto simp: image_iff same_day_overwrite)
qed

lemma process_entry_InrE:
  assumes "process_entry off t u e s n = Inr (ws, s', n')"
  obtains st v sch s1 where
    "find_shift_type_by_code s (t_template_id t) (e_shift_type_code e) = Some st"
    "valid_version s off (t_template_id t) (e_work_date e) = Inr v"
    "find_or_create_schedule s n (st_shift_type_id st) (v_template_version_id v) = Inr (sch, s1)"
    "upsert_row s1 (n + 1) u (local_day off (e_work_date e)) (sch_schedule_id sch) (e_note e) = (ws, s')"
  using assms
  by (auto simp: process_entry_def split: option.splits sum.splits prod.splits)

lemma process_entry_preserves:
  assumes "process_entry off t u e s n = Inr (ws, s', n')"
  shows "shift_templates s' = shift_templates s"
    and "shift_template_versions s' = shift_template_versions s"
    and "shift_types s' = shift_types s"
    and "set (shift_type_schedules s) \<subseteq> set (shift_type_schedules s')"
    and "\<not> same_day u (local_day off (e_work_date e)) x \<Longrightarrow>
         x \<in> set (work_shifts s') \<longleftrightarrow> x \<in> set (work_shifts s)"
proof -
  obtain st :: ShiftType and v :: ShiftTemplateVersion and sch s1 where
    f: "find_or_create_schedule s n (st_shift_type_id st) (v_template_version_id v) = Inr (sch, s1)"
    and u: "upsert_row s1 (n + 1) u (local_day off (e_work_date e)) (sch_schedule_id sch) (e_note e) = (ws, s')"
    by (rule process_entry_InrE [OF assms]) blast
  note fp = find_or_create_schedule_props [OF f]
  note up = upsert_row_props [OF u]
  show "shift_templates s' = shift_templates s" using fp up by simp
  show "shift_template_versions s' = shift_template_versions s" using fp up by simp
  show "shift_types s' = shift_types s" using fp up by simp
  show "set (shift_type_schedules s) \<subseteq> set (shift_type_schedules s')" using fp up by simp
  show "x \<in> set (work_shifts s') \<longleftrightarrow> x \<in> set (work_shifts s)" if "\<not> same_day u (local_day off (e_work_date e)) x"
    using upsert_row_other_days [OF u that] fp by simp
qed


lemma find_shift_type_by_code_cong:
  "shift_types s' = shift_types s \<Longrightarrow>
   find_shift_type_by_code s' tid c = find_shift_type_by_code s tid c"
  by (simp add: find_shift_type_by_code_def)






lemma js_set_fold:
  "distinct acc \<Longrightarrow>
   distinct (fold (\<lambda>x acc. if x \<in> set acc then acc else acc @ [x]) xs acc) \<and>
   set (fold (\<lambda>x acc. if x \<in> set acc then acc else acc @ [x]) xs acc) = set acc \<union> set xs"
  by (induction xs arbitrary: acc) auto

lemma distinct_js_set: "distinct (js_set xs)"
  using js_set_fold [of "[]" xs] by (simp add: js_set_def)

lemma set_js_set: "set (js_set xs) = set xs"
  using js_set_fold [of "[]" xs] by (simp add: js_set_def)

lemma length_js_set: "length xs = length (js_set xs) \<longleftrightarrow> distinct xs"
proof -
  have c: "length (js_set xs) = card (set xs)"
    using distinct_card [OF distinct_js_set, of xs] by (simp only: set_js_set)
  show ?thesis
  proof
    assume "length xs = length (js_set xs)"
    with c have "card (set xs) = length xs" by (simp only:)
    then show "distinct xs" by (rule card_distinct)
  next
    assume "distinct xs"
    then have "card (set xs) = length xs" by (rule distinct_card)
    with c show "length xs = length (js_set xs)" by (simp only:)
  qed
qed

lemma batch_after_checks:
  assumes "distinct (map e_work_date es)" "find_active_template (committed w) u = Some t"
  shows "batchUpsertWorkShifts w u es =
     (case process_entries (tz_offset w) t u es (committed w) (next_uuid w) [] of
        Inl e \<Rightarrow> (Inl e, w\<lparr>tx_log := tx_log w @ [Begin, Rollback]\<rparr>)
      | Inr (saved, s', n') \<Rightarrow>
          (Inr (work_shift_details s' (map ws_work_shift_id saved)),
           w\<lparr>committed := s', next_uuid := n', tx_log := tx_log w @ [Begin, Commit]\<rparr>))"
  using assms
  by (simp add: batchUpsertWorkShifts_def Let_def length_js_set split: sum.splits)





lemma process_entries_append:
  "process_entries off t u (pre @ post) s n saved =
     (case process_entries off t u pre s n saved of
        Inl e \<Rightarrow> Inl e
      | Inr (saved1, s1, n1) \<Rightarrow> process_entries off t u post s1 n1 saved1)"
  by (induction pre arbitrary: s n saved) (auto split: sum.splits)

lemma process_entries_first_error:
  assumes "process_entries off t u pre s n saved = Inr (saved1, s1, n1)"
    and "process_entry off t u e s1 n1 = Inl err"
  shows "process_entries off t u (pre @ e # post) s n saved = Inl err"
  using assms by (simp add: process_entries_append)

lemma process_entry_succeeds:
  assumes "find_shift_type_by_code s (t_template_id t) (e_shift_type_code e) \<noteq> None"
    and "\<exists>v\<in>set (shift_template_versions s). v_template_id v = t_template_id t"
  shows "\<exists>ws s' n'. process_entry off t u e s n = Inr (ws, s', n')"
proof -
  from assms(1) obtain st where
    st: "find_shift_type_by_code s (t_template_id t) (e_shift_type_code e) = Some st" by auto
  obtain v where v: "valid_version s off (t_template_id t) (e_work_date e) = Inr v"
    using valid_version_cases [where s = s and off = off and tid = "t_template_id t" and d = "e_work_date e"]
      assms(2)
    by (cases "valid_version s off (t_template_id t) (e_work_date e)") auto
  obtain sch s1 where
    f: "find_or_create_schedule s n (st_shift_type_id st) (v_template_version_id v) = Inr (sch, s1)"
    using find_or_create_schedule_Inr by blast
  show ?thesis
    using st v f by (simp add: process_entry_def split: prod.splits)
qed

lemma process_entries_succeeds:
  assumes "\<forall>e\<in>set es. find_shift_type_by_code s (t_template_id t) (e_shift_type_code e) \<noteq> None"
    and "\<exists>v\<in>set (shift_template_versions s). v_template_id v = t_template_id t"
  shows "\<exists>saved' s' n'. process_entries off t u es s n saved = Inr (saved', s', n') \<and>
           shift_types s' = shift_types s"
  using assms
proof (induction es arbitrary: s n saved)
  case Nil
  then show ?case by simp
next
  case (Cons e es)
  from process_entry_succeeds [where s = s and t = t and e = e and u = u and n = n and off = off] Cons.prems obtain ws s1 n1 where
    pe: "process_entry off t u e s n = Inr (ws, s1, n1)" by auto
  note pp = process_entry_preserves [OF pe]
  have "\<forall>e\<in>set es. find_shift_type_by_code s1 (t_template_id t) (e_shift_type_code e) \<noteq> None"
    using Cons.prems(1) by (simp add: find_shift_type_by_code_cong [OF pp(3)])
  moreover have "\<exists>v\<in>set (shift_template_versions s1). v_template_id v = t_template_id t"
    using Cons.prems(2) pp(2) by simp
  ultimately obtain saved' s' n' where
    "process_entries off t u es s1 n1 (saved @ [ws]) = Inr (saved', s', n')"
    "shift_types s' = shift_types s1"
    using Cons.IH by blast
  with pe pp(3) show ?case by simp
qed

lemma batch_failure_rolls_back:
  assumes "isl (fst (batchUpsertWorkShifts w u es))"
  shows "committed (snd (batchUpsertWorkShifts w u es)) = committed w \<and>
         next_uuid (snd (batchUpsertWorkShifts w u es)) = next_uuid w \<and>
         (tx_log (snd (batchUpsertWorkShifts w u es)) = tx_log w \<or>
          tx_log (snd (batchUpsertWorkShifts w u es)) = tx_log w @ [Begin, Rollback])"
  using assms
  by (auto simp: batchUpsertWorkShifts_def Let_def split: if_splits option.splits sum.splits)

lemma batch_first_error:
  assumes "find_active_template (committed w) u = Some t"
    and "distinct (map e_work_date (pre @ e # post))"
    and "process_entries (tz_offset w) t u pre (committed w) (next_uuid w) [] = Inr (saved, s1, n1)"
    and "process_entry (tz_offset w) t u e s1 n1 = Inl err"
  shows "batchUpsertWorkShifts w u (pre @ e # post) =
           (Inl err, w\<lparr>tx_log := tx_log w @ [Begin, Rollback]\<rparr>)"
  using process_entries_first_error [OF assms(3,4), of post]
  by (simp add: batch_after_checks [OF assms(2,1)])

lemma batch_invalid_shift_type:
  assumes "find_active_template (committed w) u = Some t"
    and "distinct (map e_work_date (pre @ e # post))"
    and "\<forall>x\<in>set pre. find_shift_type_by_code (committed w) (t_template_id t) (e_shift_type_code x) \<noteq> None"
    and "\<exists>v\<in>set (shift_template_versions (committed w)). v_template_id v = t_template_id t"
    and "find_shift_type_by_code (committed w) (t_template_id t) (e_shift_type_code e) = None"
  shows "batchUpsertWorkShifts w u (pre @ e # post) =
           (Inl (INVALID_SHIFT_TYPE (e_shift_type_code e) (e_work_date e)),
            w\<lparr>tx_log := tx_log w @ [Begin, Rollback]\<rparr>)"
proof -
  from process_entries_succeeds [OF assms(3,4), where u = u and n = "next_uuid w" and saved = "[]" and off = "tz_offset w"] obtain saved s1 n1 where
    p: "process_entries (tz_offset w) t u pre (committed w) (next_uuid w) [] = Inr (saved, s1, n1)"
    and st: "shift_types s1 = shift_types (committed w)" by blast
  have "find_shift_type_by_code s1 (t_template_id t) (e_shift_type_code e) = None"
    using assms(5) by (simp add: find_shift_type_by_code_cong [OF st])
  then have "process_entry (tz_offset w) t u e s1 n1 =
      Inl (INVALID_SHIFT_TYPE (e_shift_type_code e) (e_work_date e))"
    by (simp add: process_entry_def)
  from batch_first_error [OF assms(1,2) p this] show ?thesis .
qed

lemma index_of_first:
  "x \<in> set xs \<Longrightarrow>
   \<exists>k. index_of xs x = int k \<and> k < length xs \<and> xs ! k = x \<and> (\<forall>j<k. xs ! j \<noteq> x)"
proof (induction xs)
  case Nil
  then show ?case by simp
next
  case (Cons y ys)
  show ?case
  proof (cases "y = x")
    case True
    then show ?thesis by (intro exI [of _ 0]) simp
  next
    case False
    with Cons.prems have "x \<in> set ys" by simp
    from Cons.IH [OF this] obtain k where
      k: "index_of ys x = int k" "k < length ys" "ys ! k = x" "\<forall>j<k. ys ! j \<noteq> x" by blast
    have "\<forall>j<Suc k. (y # ys) ! j \<noteq> x"
    proof (intro allI impI)
      fix j assume "j < Suc k"
      then show "(y # ys) ! j \<noteq> x" using False k(4) by (cases j) auto
    qed
    with False k show ?thesis by (intro exI [of _ "Suc k"]) (simp add: Let_def)
  qed
qed

lemma index_of_differs:
  assumes "j < length xs"
  shows "index_of xs (xs ! j) \<noteq> int j \<longleftrightarrow> (\<exists>i<j. xs ! i = xs ! j)"
proof -
  have "xs ! j \<in> set xs" using assms by simp
  from index_of_first [OF this] obtain k where
    k: "index_of xs (xs ! j) = int k" "k < length xs" "xs ! k = xs ! j"
       "\<forall>i<k. xs ! i \<noteq> xs ! j" by blast
  have "k \<le> j"
  proof (rule ccontr)
    assume "\<not> k \<le> j"
    then have "j < k" by simp
    with k(4) show False by blast
  qed
  show ?thesis
  proof
    assume "index_of xs (xs ! j) \<noteq> int j"
    with k(1) \<open>k \<le> j\<close> have "k < j" by simp
    with k(3) show "\<exists>i<j. xs ! i = xs ! j" by blast
  next
    assume "\<exists>i<j. xs ! i = xs ! j"
    then obtain i where "i < j" "xs ! i = xs ! j" by blast
    with k(4) have "k \<noteq> j" by blast
    with k(1) show "index_of xs (xs ! j) \<noteq> int j" by simp
  qed
qed

lemma set_duplicate_dates:
  "set (duplicate_dates xs) = {d. \<exists>i j. i < j \<and> j < length xs \<and> xs ! i = d \<and> xs ! j = d}"
proof (intro set_eqI iffI)
  fix d assume "d \<in> set (duplicate_dates xs)"
  then obtain j where "(d, j) \<in> set (zip xs [0..<length xs])" "index_of xs d \<noteq> int j"
    by (auto simp: duplicate_dates_def)
  then have j: "j < length xs" "xs ! j = d" "index_of xs (xs ! j) \<noteq> int j"
    by (auto simp: set_zip)
  with index_of_differs [OF j(1)] obtain i where "i < j" "xs ! i = xs ! j" by blast
  with j show "d \<in> {d. \<exists>i j. i < j \<and> j < length xs \<and> xs ! i = d \<and> xs ! j = d}" by blast
next
  fix d assume "d \<in> {d. \<exists>i j. i < j \<and> j < length xs \<and> xs ! i = d \<and> xs ! j = d}"
  then obtain i j where ij: "i < j" "j < length xs" "xs ! i = d" "xs ! j = d" by blast
  then have "index_of xs (xs ! j) \<noteq> int j" using index_of_differs [OF ij(2)] by auto
  moreover have "(xs ! j, j) \<in> set (zip xs [0..<length xs])"
    using ij(2) by (auto simp: set_zip intro!: exI [of _ j])
  ultimately have "xs ! j \<in> set (duplicate_dates xs)"
    by (force simp: duplicate_dates_def)
  with ij show "d \<in> set (duplicate_dates xs)" by simp
qed

lemma not_distinct_positions:
  "\<not> distinct xs \<longleftrightarrow> (\<exists>i j. i < j \<and> j < length xs \<and> xs ! i = xs ! j)"
proof
  assume "\<not> distinct xs"
  then obtain i j where "i < length xs" "j < length xs" "i \<noteq> j" "xs ! i = xs ! j"
    by (auto simp: distinct_conv_nth)
  then consider "i < j" | "j < i" by linarith
  then show "\<exists>i j. i < j \<and> j < length xs \<and> xs ! i = xs ! j"
  proof cases
    case 1
    with \<open>j < length xs\<close> \<open>xs ! i = xs ! j\<close> show ?thesis by blast
  next
    case 2
    with \<open>i < length xs\<close> \<open>xs ! i = xs ! j\<close> show ?thesis by metis
  qed
next
  assume "\<exists>i j. i < j \<and> j < length xs \<and> xs ! i = xs ! j"
  then obtain i j where ij: "i < j" "j < length xs" "xs ! i = xs ! j" by blast
  then have "i < length xs" "i \<noteq> j" by simp_all
  with ij show "\<not> distinct xs" unfolding distinct_conv_nth by blast
qed

lemma batch_duplicate:
  assumes "i < j" "j < length es" "e_work_date (es ! i) = e_work_date (es ! j)"
  shows "batchUpsertWorkShifts w u es =
           (Inl (DUPLICATE_DATE (js_set (duplicate_dates (map e_work_date es)))), w)"
proof -
  have "i < j \<and> j < length (map e_work_date es) \<and>
        map e_work_date es ! i = map e_work_date es ! j"
    using assms by simp
  then have "\<not> distinct (map e_work_date es)"
    unfolding not_distinct_positions by blast
  then show ?thesis
    by (simp add: batchUpsertWorkShifts_def Let_def length_js_set)
qed

subsection \<open>Claims about the batch upsert\<close>




text \<open>
  C2. If any entry of a batch fails, the committed tables after the call are the committed
  tables before it (no work shift and no lazily created schedule of an earlier entry
  remains), and a transaction that was opened is rolled back before the error leaves the
  function. The error is the one of the first entry that fails: when the entries before it
  go through and it fails with \<open>err\<close>, the batch fails with \<open>err\<close>; in particular an
  unknown shift-type code gives \<open>INVALID_SHIFT_TYPE\<close> with that code and that entry's day.
\<close>

theorem batch_failure_atomic:
  "(isl (fst (batchUpsertWorkShifts w u es)) \<longrightarrow>
      committed (snd (batchUpsertWorkShifts w u es)) = committed w \<and>
      (tx_log (snd (batchUpsertWorkShifts w u es)) = tx_log w \<or>
       tx_log (snd (batchUpsertWorkShifts w u es)) = tx_log w @ [Begin, Rollback]))
   \<and> (find_active_template (committed w) u = Some t \<and>
       distinct (map e_work_date (pre @ e # post)) \<and>
       process_entries (tz_offset w) t u pre (committed w) (next_uuid w) [] = Inr (saved, s1, n1) \<and>
       process_entry (tz_offset w) t u e s1 n1 = Inl err \<longrightarrow>
        batchUpsertWorkShifts w u (pre @ e # post) =
          (Inl err, w\<lparr>tx_log := tx_log w @ [Begin, Rollback]\<rparr>))
   \<and> (find_active_template (committed w) u = Some t \<and>
       distinct (map e_work_date (pre @ e # post)) \<and>
       (\<forall>x\<in>set pre. find_shift_type_by_code (committed w) (t_template_id t)
                        (e_shift_type_code x) \<noteq> None) \<and>
       (\<exists>v\<in>set (shift_template_versions (committed w)). v_template_id v = t_template_id t) \<and>
       find_shift_type_by_code (committed w) (t_template_id t) (e_shift_type_code e) = None \<longrightarrow>
        batchUpsertWorkShifts w u (pre @ e # post) =
          (Inl (INVALID_SHIFT_TYPE (e_shift_type_code e) (e_work_date e)),
           w\<lparr>tx_log := tx_log w @ [Begin, Rollback]\<rparr>))"
proof (intro conjI impI)
  assume "isl (fst (batchUpsertWorkShifts w u es))"
  from batch_failure_rolls_back [OF this]
  show "committed (snd (batchUpsertWorkShifts w u es)) = committed w"
    and "tx_log (snd (batchUpsertWorkShifts w u es)) = tx_log w \<or>
       tx_log (snd (batchUpsertWorkShifts w u es)) = tx_log w @ [Begin, Rollback]"
    by simp_all
next
  assume "find_active_template (committed w) u = Some t \<and>
       distinct (map e_work_date (pre @ e # post)) \<and>
       process_entries (tz_offset w) t u pre (committed w) (next_uuid w) [] = Inr (saved, s1, n1) \<and>
       process_entry (tz_offset w) t u e s1 n1 = Inl err"
  then show "batchUpsertWorkShifts w u (pre @ e # post) =
          (Inl err, w\<lparr>tx_log := tx_log w @ [Begin, Rollback]\<rparr>)"
    using batch_first_error by blast
next
  assume "find_active_template (committed w) u = Some t \<and>
       distinct (map e_work_date (pre @ e # post)) \<and>
       (\<forall>x\<in>set pre. find_shift_type_by_code (committed w) (t_template_id t)
                        (e_shift_type_code x) \<noteq> None) \<and>
       (\<exists>v\<in>set (shift_template_versions (committed w)). v_template_id v = t_template_id t) \<and>
       find_shift_type_by_code (committed w) (t_template_id t) (e_shift_type_code e) = None"
  then show "batchUpsertWorkShifts w u (pre @ e # post) =
          (Inl (INVALID_SHIFT_TYPE (e_shift_type_code e) (e_work_date e)),
           w\<lparr>tx_log := tx_log w @ [Begin, Rollback]\<rparr>)"
    using batch_invalid_shift_type by blast
qed

theorem batch_failure_atomic_witness:
  "batchUpsertWorkShifts ex_server 100
       [ex_entry 15 ''D'', ex_entry 25 ''D'', ex_entry 16 ''X'', ex_entry 17 ''D''] =
     (Inl (INVALID_SHIFT_TYPE ''X'' 16), ex_server\<lparr>tx_log := [Begin, Rollback]\<rparr>)
   \<and> committed (snd (batchUpsertWorkShifts ex_server 100
       [ex_entry 15 ''D'', ex_entry 25 ''D'', ex_entry 16 ''X'', ex_entry 17 ''D''])) = ex_store
   \<and> batchUpsertWorkShifts ex_server 100 [ex_entry 16 ''X'', ex_entry 17 ''D''] =
     (Inl (INVALID_SHIFT_TYPE ''X'' 16), ex_server\<lparr>tx_log := [Begin, Rollback]\<rparr>)"
proof -
  let ?pre = "[ex_entry 15 ''D'', ex_entry 25 ''D'']"
  let ?e = "ex_entry 16 ''X''"
  let ?post = "[ex_entry 17 ''D'']"
  note inst = batch_failure_atomic
    [where w = ex_server and u = 100 and es = "?pre @ ?e # ?post" and t = ex_template
       and pre = "?pre" and e = "?e" and post = "?post"]
  have h3: "find_active_template (committed ex_server) 100 = Some ex_template \<and>
       distinct (map e_work_date (?pre @ ?e # ?post)) \<and>
       (\<forall>x\<in>set ?pre. find_shift_type_by_code (committed ex_server) (t_template_id ex_template)
                        (e_shift_type_code x) \<noteq> None) \<and>
       (\<exists>v\<in>set (shift_template_versions (committed ex_server)).
           v_template_id v = t_template_id ex_template) \<and>
       find_shift_type_by_code (committed ex_server) (t_template_id ex_template)
         (e_shift_type_code ?e) = None"
    by code_simp
  from inst h3 have r: "batchUpsertWorkShifts ex_server 100 (?pre @ ?e # ?post) =
          (Inl (INVALID_SHIFT_TYPE (e_shift_type_code ?e) (e_work_date ?e)),
           ex_server\<lparr>tx_log := tx_log ex_server @ [Begin, Rollback]\<rparr>)"
    by blast
  then have r1: "batchUpsertWorkShifts ex_server 100 (?pre @ ?e # ?post) =
     (Inl (INVALID_SHIFT_TYPE ''X'' 16), ex_server\<lparr>tx_log := [Begin, Rollback]\<rparr>)"
    by (simp add: ex_server_def ex_entry_def)
  then have "isl (fst (batchUpsertWorkShifts ex_server 100 (?pre @ ?e # ?post)))" by simp
  with inst have "committed (snd (batchUpsertWorkShifts ex_server 100 (?pre @ ?e # ?post))) =
      committed ex_server"
    by blast
  then have r2: "committed (snd (batchUpsertWorkShifts ex_server 100 (?pre @ ?e # ?post))) = ex_store"
    by (simp add: ex_server_def)
  note inst2 = batch_failure_atomic
    [where w = ex_server and u = 100 and t = ex_template and pre = "[]" and e = "?e"
       and post = "?post" and saved = "[]" and ?s1.0 = ex_store and ?n1.0 = 1000
       and err = "INVALID_SHIFT_TYPE ''X'' 16"]
  have h2: "find_active_template (committed ex_server) 100 = Some ex_template \<and>
       distinct (map e_work_date ([] @ ?e # ?post)) \<and>
       process_entries (tz_offset ex_server) ex_template 100 [] (committed ex_server) (next_uuid ex_server) [] =
         Inr ([], ex_store, 1000) \<and>
       process_entry (tz_offset ex_server) ex_template 100 ?e ex_store 1000 = Inl (INVALID_SHIFT_TYPE ''X'' 16)"
    by code_simp
  from inst2 h2 have "batchUpsertWorkShifts ex_server 100 ([] @ ?e # ?post) =
          (Inl (INVALID_SHIFT_TYPE ''X'' 16),
           ex_server\<lparr>tx_log := tx_log ex_server @ [Begin, Rollback]\<rparr>)"
    by blast
  then have r3: "batchUpsertWorkShifts ex_server 100 [?e, ex_entry 17 ''D''] =
     (Inl (INVALID_SHIFT_TYPE ''X'' 16), ex_server\<lparr>tx_log := [Begin, Rollback]\<rparr>)"
    by (simp add: ex_server_def)
  from r1 r2 r3 show ?thesis by simp
qed

text \<open>
  C3. If two entries of the request have the same \<open>work_date\<close>, the batch fails with
  \<open>DUPLICATE_DATE\<close>, carrying each day that occurs more than once exactly once; the server
  is returned as it was: no event is added to the transaction log (the check runs before
  any transaction is opened) and no table is changed.
\<close>

theorem batch_duplicate_date:
  "i < j \<and> j < length es \<and> e_work_date (es ! i) = e_work_date (es ! j) \<longrightarrow>
     (\<exists>ds. batchUpsertWorkShifts w u es = (Inl (DUPLICATE_DATE ds), w) \<and> distinct ds \<and>
        set ds = {d. \<exists>i j. i < j \<and> j < length es \<and>
                     e_work_date (es ! i) = d \<and> e_work_date (es ! j) = d})"
proof
  assume a: "i < j \<and> j < length es \<and> e_work_date (es ! i) = e_work_date (es ! j)"
  let ?ds = "js_set (duplicate_dates (map e_work_date es))"
  have "batchUpsertWorkShifts w u es = (Inl (DUPLICATE_DATE ?ds), w)"
    using a by (intro batch_duplicate [of i j]) auto
  moreover have "distinct ?ds" by (rule distinct_js_set)
  moreover have "set ?ds = {d. \<exists>i j. i < j \<and> j < length es \<and>
                     e_work_date (es ! i) = d \<and> e_work_date (es ! j) = d}"
  proof (intro set_eqI iffI)
    fix d assume "d \<in> set ?ds"
    then obtain i j where "i < j" "j < length (map e_work_date es)"
      "map e_work_date es ! i = d" "map e_work_date es ! j = d"
      unfolding set_js_set set_duplicate_dates by blast
    then have "i < j \<and> j < length es \<and> e_work_date (es ! i) = d \<and> e_work_date (es ! j) = d"
      by simp
    then show "d \<in> {d. \<exists>i j. i < j \<and> j < length es \<and>
                     e_work_date (es ! i) = d \<and> e_work_date (es ! j) = d}" by blast
  next
    fix d assume "d \<in> {d. \<exists>i j. i < j \<and> j < length es \<and>
                     e_work_date (es ! i) = d \<and> e_work_date (es ! j) = d}"
    then obtain i j where "i < j" "j < length es" "e_work_date (es ! i) = d"
      "e_work_date (es ! j) = d" by blast
    then have "i < j \<and> j < length (map e_work_date es) \<and>
      map e_work_date es ! i = d \<and> map e_work_date es ! j = d" by simp
    then show "d \<in> set ?ds"
      unfolding set_js_set set_duplicate_dates by blast
  qed
  ultimately show "\<exists>ds. batchUpsertWorkShifts w u es = (Inl (DUPLICATE_DATE ds), w) \<and> distinct ds \<and>
        set ds = {d. \<exists>i j. i < j \<and> j < length es \<and>
                     e_work_date (es ! i) = d \<and> e_work_date (es ! j) = d}"
    by blast
qed

theorem batch_duplicate_date_witness:
  "batchUpsertWorkShifts ex_server 100
     [ex_entry 15 ''D'', ex_entry 16 ''D'', ex_entry 15 ''D'', ex_entry 16 ''D'', ex_entry 15 ''D''] =
     (Inl (DUPLICATE_DATE [15, 16]), ex_server)"
proof -
  let ?es = "[ex_entry 15 ''D'', ex_entry 16 ''D'', ex_entry 15 ''D'', ex_entry 16 ''D'', ex_entry 15 ''D'']"
  have h: "(0::nat) < 2 \<and> 2 < length ?es \<and> e_work_date (?es ! 0) = e_work_date (?es ! 2)"
    by code_simp
  from batch_duplicate_date [where i = 0 and j = 2 and es = "?es" and w = ex_server and u = 100] h
  obtain ds where "batchUpsertWorkShifts ex_server 100 ?es = (Inl (DUPLICATE_DATE ds), ex_server)"
    by blast
  moreover have "fst (batchUpsertWorkShifts ex_server 100 ?es) = Inl (DUPLICATE_DATE [15, 16])"
    by code_simp
  ultimately show ?thesis by simp
qed

subsection \<open>Lemmas about the registry and the single upsert\<close>

lemma createShiftType_at_capacity:
  assumes "find_active_template (committed w) u = Some t"
    and "MAX_SHIFT_TYPES_PER_TEMPLATE \<le> length (live_shift_types (committed w) (t_template_id t))"
  shows "createShiftType w u data =
           (Inl MAX_SHIFT_TYPES_EXCEEDED, w\<lparr>tx_log := tx_log w @ [Begin, Rollback]\<rparr>)"
  using assms
  by (simp add: createShiftType_def transaction_def createShiftType_body_def)

lemma find_live_work_shift_using_bound:
  "find_live_work_shift_using s (bound_schedule_ids s i) \<noteq> None \<longleftrightarrow> shift_type_in_use s i"
proof
  assume "find_live_work_shift_using s (bound_schedule_ids s i) \<noteq> None"
  then obtain ws where ws: "ws \<in> set (work_shifts s)" "ws_deleted_at ws = None"
    "ws_schedule_id ws \<in> set (bound_schedule_ids s i)"
    by (auto simp: find_live_work_shift_using_def find_None_iff)
  from ws(3) obtain sch where "sch \<in> set (shift_type_schedules s)"
    "sch_shift_type_id sch = i" "sch_schedule_id sch = ws_schedule_id ws"
    by (auto simp: bound_schedule_ids_def)
  with ws(1,2) show "shift_type_in_use s i"
    unfolding shift_type_in_use_def list_ex_iff by blast
next
  assume "shift_type_in_use s i"
  then obtain ws sch where ws: "ws \<in> set (work_shifts s)" "ws_deleted_at ws = None"
    and sch: "sch \<in> set (shift_type_schedules s)" "sch_shift_type_id sch = i"
      "sch_schedule_id sch = ws_schedule_id ws"
    unfolding shift_type_in_use_def list_ex_iff by blast
  from sch have "ws_schedule_id ws \<in> set (bound_schedule_ids s i)"
    by (force simp: bound_schedule_ids_def)
  with ws show "find_live_work_shift_using s (bound_schedule_ids s i) \<noteq> None"
    by (auto simp: find_live_work_shift_using_def find_None_iff)
qed

lemma in_use_nonempty:
  "find_live_work_shift_using s ids \<noteq> None \<Longrightarrow> 0 < length ids"
  by (cases ids) (auto simp: find_live_work_shift_using_def find_None_iff)

lemma find_shift_type_with_template_id:
  "find_shift_type_with_template s i = Some (st, t) \<Longrightarrow>
   st_shift_type_id st = i \<and> st_deleted_at st = None \<and> st \<in> set (shift_types s) \<and>
   t \<in> set (shift_templates s) \<and> t_template_id t = st_template_id st"
  by (auto simp: find_shift_type_with_template_def find_Some_iff split: option.splits)

lemma deleteShiftType_cases:
  assumes "find_shift_type_with_template (committed w) i = Some (st, t)"
    and "t_owner_user_id t = u"
  shows "deleteShiftType w u i now =
     (if shift_type_in_use (committed w) i
      then (Inl IN_USE, w\<lparr>tx_log := tx_log w @ [Begin, Rollback]\<rparr>)
      else (Inr (i, now),
            w\<lparr>committed := (committed w)\<lparr>shift_types :=
                 map (\<lambda>x. if st_shift_type_id x = i then st\<lparr>st_deleted_at := Some now\<rparr> else x)
                     (shift_types (committed w))\<rparr>,
              tx_log := tx_log w @ [Begin, Commit]\<rparr>))"
proof (cases "shift_type_in_use (committed w) i")
  case True
  then have f: "find_live_work_shift_using (committed w) (bound_schedule_ids (committed w) i) \<noteq> None"
    using find_live_work_shift_using_bound [of "committed w" i] by blast
  from in_use_nonempty [OF f] f assms True show ?thesis
    by (simp add: deleteShiftType_def transaction_def deleteShiftType_body_def Let_def)
next
  case False
  then have f: "find_live_work_shift_using (committed w) (bound_schedule_ids (committed w) i) = None"
    using find_live_work_shift_using_bound [of "committed w" i] by blast
  from find_shift_type_with_template_id [OF assms(1)] have "st_shift_type_id st = i" by simp
  with f assms False show ?thesis
    by (simp add: deleteShiftType_def transaction_def deleteShiftType_body_def Let_def
        save_shift_type_def)
qed

lemma createShiftType_one_sided:
  assumes "falsy a \<noteq> falsy b"
  shows "createShiftType w u (data\<lparr>cd_start_time := a, cd_end_time := b\<rparr>) =
         createShiftType w u (data\<lparr>cd_start_time := None, cd_end_time := None\<rparr>)"
proof -
  have "falsy a \<or> falsy b" using assms by auto
  then have "createShiftType_body w u (data\<lparr>cd_start_time := a, cd_end_time := b\<rparr>) =
        createShiftType_body w u (data\<lparr>cd_start_time := None, cd_end_time := None\<rparr>)"
    by (intro ext)
       (auto simp: createShiftType_body_def Let_def falsy_def
          cong: option.case_cong sum.case_cong if_cong)
  then show ?thesis by (simp add: createShiftType_def)
qed

lemma createShiftType_untimed:
  assumes "find_active_template (committed w) u = Some t"
    and "getCurrentVersion (committed w) (t_template_id t) = Inr v"
    and "falsy (cd_start_time data) \<or> falsy (cd_end_time data)"
    and "fst (createShiftType w u data) = Inr res"
  shows "r_start_time res = None" and "r_end_time res = None"
    and "r_crosses_midnight res = False" and "r_duration_minutes res = 0"
    and "shift_type_schedules (committed (snd (createShiftType w u data))) =
         shift_type_schedules (committed w) @
           [\<lparr>sch_schedule_id = next_uuid w + 1, sch_shift_type_id = next_uuid w,
             sch_template_version_id = v_template_version_id v,
             sch_start_time = None, sch_end_time = None,
             sch_crosses_midnight = False, sch_duration_minutes = 0\<rparr>]"
  using assms
  by (auto simp: createShiftType_def transaction_def createShiftType_body_def Let_def
      create_schedule_def create_shift_type_def shift_type_result_of_def
      split: if_splits sum.splits)

lemma updateShiftType_one_omitted:
  assumes "(x = None) \<noteq> (y = None)"
  shows "updateShiftType w u i (data\<lparr>ud_start_time := x, ud_end_time := y\<rparr>) =
         updateShiftType w u i (data\<lparr>ud_start_time := None, ud_end_time := None\<rparr>)"
proof -
  consider z where "x = None" "y = Some z" | z where "x = Some z" "y = None"
    using assms by (cases x; cases y) auto
  then have "updateShiftType_body w u i (data\<lparr>ud_start_time := x, ud_end_time := y\<rparr>) =
        updateShiftType_body w u i (data\<lparr>ud_start_time := None, ud_end_time := None\<rparr>)"
  proof cases
    case 1
    then show ?thesis
      by (intro ext)
         (simp add: updateShiftType_body_def Let_def
            cong: option.case_cong sum.case_cong prod.case_cong if_cong)
  next
    case 2
    then show ?thesis
      by (intro ext)
         (simp add: updateShiftType_body_def Let_def
            cong: option.case_cong sum.case_cong prod.case_cong if_cong)
  qed
  then show ?thesis by (simp add: updateShiftType_def)
qed

lemma updateShiftType_one_null:
  assumes "falsy a \<noteq> falsy b"
  shows "updateShiftType w u i (data\<lparr>ud_start_time := Some a, ud_end_time := Some b\<rparr>) =
         updateShiftType w u i (data\<lparr>ud_start_time := Some None, ud_end_time := Some None\<rparr>)"
proof -
  have "falsy a \<or> falsy b" using assms by auto
  then have "updateShiftType_body w u i (data\<lparr>ud_start_time := Some a, ud_end_time := Some b\<rparr>) =
        updateShiftType_body w u i (data\<lparr>ud_start_time := Some None, ud_end_time := Some None\<rparr>)"
    by (intro ext)
       (auto simp: updateShiftType_body_def Let_def falsy_def
          cong: option.case_cong sum.case_cong prod.case_cong if_cong)
  then show ?thesis by (simp add: updateShiftType_def)
qed

subsection \<open>Claims about the single upsert and the registry\<close>

text \<open>
  C5. Two upserts for the same owner and day are to leave exactly one live row for that
  day, carrying the second call's schedule and note. On a day whose row was soft-deleted
  before (what \<^verbatim>\<open>deleteWorkShift\<close> leaves behind) they do not: \<^verbatim>\<open>WorkShift.upsert\<close> finds
  the soft-deleted row through the unique index on owner and day, overwrites its schedule
  and note, and leaves \<^verbatim>\<open>deleted_at\<close> as it is. Both calls succeed, the table holds one row
  for the day, with the second call's schedule and note, still soft-deleted: there is no
  live row for the day, and the reads, which filter on \<^verbatim>\<open>deleted_at: null\<close>, do not see it.
\<close>

theorem upsertWorkShift_twice_soft_deleted:
  "map ws_deleted_at (filter (same_day 100 15) (work_shifts (committed ex_deleted_server))) =
     [Some 7]
   \<and> \<not> isl (fst (upsertWorkShift ex_deleted_server 100 15 ''D'' None))
   \<and> \<not> isl (fst (upsert_twice ex_deleted_server 100 15 ''D'' None ''D'' (Some ''swap'')))
   \<and> map (\<lambda>x. (ws_schedule_id x, ws_note x, ws_deleted_at x))
       (filter (same_day 100 15)
          (work_shifts (committed (snd (upsert_twice ex_deleted_server 100 15 ''D'' None ''D''
             (Some ''swap'')))))) = [(1000, Some ''swap'', Some 7)]
   \<and> filter (\<lambda>x. same_day 100 15 x \<and> ws_deleted_at x = None)
        (work_shifts (committed (snd (upsert_twice ex_deleted_server 100 15 ''D'' None ''D''
           (Some ''swap''))))) = []"
  by code_simp

text \<open>
  C6. Creating a shift type when the caller's template already holds 10 live shift types
  (or more) fails with \<open>MAX_SHIFT_TYPES_EXCEEDED\<close>; the transaction is rolled back, the
  committed tables are unchanged: the live count stays what it was and no shift type or
  schedule row is created.
\<close>

theorem createShiftType_capacity:
  "find_active_template (committed w) u = Some t \<and>
   10 \<le> length (live_shift_types (committed w) (t_template_id t)) \<longrightarrow>
     fst (createShiftType w u data) = Inl MAX_SHIFT_TYPES_EXCEEDED \<and>
     committed (snd (createShiftType w u data)) = committed w \<and>
     length (live_shift_types (committed (snd (createShiftType w u data))) (t_template_id t)) =
       length (live_shift_types (committed w) (t_template_id t)) \<and>
     shift_types (committed (snd (createShiftType w u data))) = shift_types (committed w) \<and>
     shift_type_schedules (committed (snd (createShiftType w u data))) =
       shift_type_schedules (committed w) \<and>
     tx_log (snd (createShiftType w u data)) = tx_log w @ [Begin, Rollback]"
proof
  assume a: "find_active_template (committed w) u = Some t \<and>
   10 \<le> length (live_shift_types (committed w) (t_template_id t))"
  then have "createShiftType w u data =
           (Inl MAX_SHIFT_TYPES_EXCEEDED, w\<lparr>tx_log := tx_log w @ [Begin, Rollback]\<rparr>)"
    by (intro createShiftType_at_capacity [of w u t]) (simp_all add: MAX_SHIFT_TYPES_PER_TEMPLATE_def)
  then show "fst (createShiftType w u data) = Inl MAX_SHIFT_TYPES_EXCEEDED \<and>
     committed (snd (createShiftType w u data)) = committed w \<and>
     length (live_shift_types (committed (snd (createShiftType w u data))) (t_template_id t)) =
       length (live_shift_types (committed w) (t_template_id t)) \<and>
     shift_types (committed (snd (createShiftType w u data))) = shift_types (committed w) \<and>
     shift_type_schedules (committed (snd (createShiftType w u data))) =
       shift_type_schedules (committed w) \<and>
     tx_log (snd (createShiftType w u data)) = tx_log w @ [Begin, Rollback]"
    by simp
qed

theorem createShiftType_capacity_witness:
  "length (live_shift_types ex_full_store 1) = 10
   \<and> fst (createShiftType (ex_server\<lparr>committed := ex_full_store\<rparr>) 100 ex_create_data) =
       Inl MAX_SHIFT_TYPES_EXCEEDED
   \<and> committed (snd (createShiftType (ex_server\<lparr>committed := ex_full_store\<rparr>) 100 ex_create_data)) =
       ex_full_store
   \<and> length (live_shift_types
        (committed (snd (createShiftType (ex_server\<lparr>committed := ex_full_store\<rparr>) 100 ex_create_data)))
        1) = 10"
proof -
  let ?w = "ex_server\<lparr>committed := ex_full_store\<rparr>"
  have n: "length (live_shift_types ex_full_store 1) = 10"
    by code_simp
  have h: "find_active_template (committed ?w) 100 = Some ex_template \<and>
     10 \<le> length (live_shift_types (committed ?w) (t_template_id ex_template))"
    by code_simp
  from createShiftType_capacity [where w = "?w" and u = 100 and t = ex_template
      and data = ex_create_data] h n
  show ?thesis by (simp add: ex_template_def)
qed

text \<open>
  C7. For a live shift type whose template the caller owns (the checks that come first in
  \<^verbatim>\<open>deleteShiftType\<close>), the call fails with \<open>IN_USE\<close> if and only if some live work
  shift references a schedule bound to the shift type in any version, and then nothing
  changes; otherwise it succeeds, stamps \<open>deleted_at\<close> on the shift type and leaves the
  schedule rows and the work shifts as they were.
\<close>

theorem deleteShiftType_in_use:
  "find_shift_type_with_template (committed w) i = Some (st, t) \<and> t_owner_user_id t = u \<longrightarrow>
     (fst (deleteShiftType w u i now) = Inl IN_USE \<longleftrightarrow> shift_type_in_use (committed w) i) \<and>
     (shift_type_in_use (committed w) i \<longrightarrow>
        committed (snd (deleteShiftType w u i now)) = committed w) \<and>
     (\<not> shift_type_in_use (committed w) i \<longrightarrow>
        fst (deleteShiftType w u i now) = Inr (i, now) \<and>
        st \<in> set (shift_types (committed w)) \<and> st_shift_type_id st = i \<and>
        shift_types (committed (snd (deleteShiftType w u i now))) =
          map (\<lambda>x. if st_shift_type_id x = i then st\<lparr>st_deleted_at := Some now\<rparr> else x)
              (shift_types (committed w)) \<and>
        shift_type_schedules (committed (snd (deleteShiftType w u i now))) =
          shift_type_schedules (committed w) \<and>
        work_shifts (committed (snd (deleteShiftType w u i now))) = work_shifts (committed w))"
proof
  assume a: "find_shift_type_with_template (committed w) i = Some (st, t) \<and> t_owner_user_id t = u"
  then have f: "find_shift_type_with_template (committed w) i = Some (st, t)"
    and o: "t_owner_user_id t = u" by simp_all
  note c = deleteShiftType_cases [OF f o, of now]
  note m = find_shift_type_with_template_id [OF f]
  show "(fst (deleteShiftType w u i now) = Inl IN_USE \<longleftrightarrow> shift_type_in_use (committed w) i) \<and>
     (shift_type_in_use (committed w) i \<longrightarrow>
        committed (snd (deleteShiftType w u i now)) = committed w) \<and>
     (\<not> shift_type_in_use (committed w) i \<longrightarrow>
        fst (deleteShiftType w u i now) = Inr (i, now) \<and>
        st \<in> set (shift_types (committed w)) \<and> st_shift_type_id st = i \<and>
        shift_types (committed (snd (deleteShiftType w u i now))) =
          map (\<lambda>x. if st_shift_type_id x = i then st\<lparr>st_deleted_at := Some now\<rparr> else x)
              (shift_types (committed w)) \<and>
        shift_type_schedules (committed (snd (deleteShiftType w u i now))) =
          shift_type_schedules (committed w) \<and>
        work_shifts (committed (snd (deleteShiftType w u i now))) = work_shifts (committed w))"
    using m by (simp add: c)
qed

theorem deleteShiftType_in_use_witness:
  "shift_type_in_use (committed ex_used_server) 21
   \<and> fst (deleteShiftType ex_used_server 100 21 9) = Inl IN_USE
   \<and> committed (snd (deleteShiftType ex_used_server 100 21 9)) = committed ex_used_server
   \<and> \<not> shift_type_in_use (committed ex_deleted_server) 21
   \<and> fst (deleteShiftType ex_deleted_server 100 21 9) = Inr (21, 9)
   \<and> shift_types (committed (snd (deleteShiftType ex_deleted_server 100 21 9))) =
       [ex_shift_type\<lparr>st_deleted_at := Some 9\<rparr>]
   \<and> shift_type_schedules (committed (snd (deleteShiftType ex_deleted_server 100 21 9))) =
       [ex_schedule]"
proof -
  have h1: "find_shift_type_with_template (committed ex_used_server) 21 =
      Some (ex_shift_type, ex_template) \<and> t_owner_user_id ex_template = 100"
    by code_simp
  have u1: "shift_type_in_use (committed ex_used_server) 21"
    by code_simp
  have h2: "find_shift_type_with_template (committed ex_deleted_server) 21 =
      Some (ex_shift_type, ex_template) \<and> t_owner_user_id ex_template = 100"
    by code_simp
  have u2: "\<not> shift_type_in_use (committed ex_deleted_server) 21"
    by code_simp
  have s2: "shift_types (committed ex_deleted_server) = [ex_shift_type]"
    "shift_type_schedules (committed ex_deleted_server) = [ex_schedule]"
    "st_shift_type_id ex_shift_type = 21"
    by code_simp+
  from deleteShiftType_in_use [where w = ex_used_server and i = 21 and st = ex_shift_type
      and t = ex_template and u = 100 and now = 9] h1 u1
  have a: "fst (deleteShiftType ex_used_server 100 21 9) = Inl IN_USE \<and>
      committed (snd (deleteShiftType ex_used_server 100 21 9)) = committed ex_used_server"
    by blast
  from deleteShiftType_in_use [where w = ex_deleted_server and i = 21 and st = ex_shift_type
      and t = ex_template and u = 100 and now = 9] h2 u2
  have b: "fst (deleteShiftType ex_deleted_server 100 21 9) = Inr (21, 9) \<and>
      shift_types (committed (snd (deleteShiftType ex_deleted_server 100 21 9))) =
          map (\<lambda>x. if st_shift_type_id x = 21 then ex_shift_type\<lparr>st_deleted_at := Some 9\<rparr> else x)
              (shift_types (committed ex_deleted_server)) \<and>
      shift_type_schedules (committed (snd (deleteShiftType ex_deleted_server 100 21 9))) =
          shift_type_schedules (committed ex_deleted_server)"
    by blast
  from a b u1 u2 show ?thesis by (simp add: s2)
qed

text \<open>
  C8. \<^verbatim>\<open>updateShiftType\<close> with both time fields set to null is to delete the current
  version's schedule row when no live work shift references it. It does so when no work
  shift row references the schedule at all. When the only reference is a soft-deleted work
  shift, the usage check (\<^verbatim>\<open>deleted_at: null\<close>) finds nothing and the code takes the delete
  branch, but the row of the soft-deleted work shift still holds the foreign key:
  \<^verbatim>\<open>existing_schedule.destroy()\<close> is refused, the transaction is rolled back, the call
  fails and the schedule row stays, with its times.
\<close>

theorem updateShiftType_null_times_soft_deleted:
  "find_schedule (committed ex_timed_deleted_server) 21 12 = Some ex_schedule2
   \<and> find_live_work_shift_using (committed ex_timed_deleted_server) [32] = None
   \<and> updateShiftType ex_timed_deleted_server 100 21
       (ex_update_data\<lparr>ud_start_time := Some None, ud_end_time := Some None\<rparr>) =
     (Inl FOREIGN_KEY_CONSTRAINT_ERROR, ex_timed_deleted_server\<lparr>tx_log := [Begin, Rollback]\<rparr>)
   \<and> shift_type_schedules (committed (snd (updateShiftType ex_timed_deleted_server 100 21
       (ex_update_data\<lparr>ud_start_time := Some None, ud_end_time := Some None\<rparr>)))) =
     [ex_schedule, ex_schedule2]
   \<and> shift_type_schedules (committed (snd (updateShiftType ex_timed_server 100 21
       (ex_update_data\<lparr>ud_start_time := Some None, ud_end_time := Some None\<rparr>)))) =
     [ex_schedule]"
  by code_simp

text \<open>
  C9, as the code has it. A start time without an end time, or the reverse, is not
  rejected. \<^verbatim>\<open>createShiftType\<close> treats the pair as if neither had been given: it does what
  it does without times, and when it succeeds the result carries no times and the schedule
  is stored with both times null, \<open>crosses_midnight\<close> false and duration 0.
  \<^verbatim>\<open>updateShiftType\<close> with one field given and the other left out does what it does with
  both left out, and with one field given and the other null what it does with both null.
\<close>

theorem one_sided_times_defaulted:
  "(falsy a \<noteq> falsy b \<longrightarrow>
      createShiftType w u (cdata\<lparr>cd_start_time := a, cd_end_time := b\<rparr>) =
      createShiftType w u (cdata\<lparr>cd_start_time := None, cd_end_time := None\<rparr>))
   \<and> (find_active_template (committed w) u = Some t \<and>
       getCurrentVersion (committed w) (t_template_id t) = Inr v \<and>
       falsy (cd_start_time cdata) \<noteq> falsy (cd_end_time cdata) \<and>
       fst (createShiftType w u cdata) = Inr res \<longrightarrow>
        r_start_time res = None \<and> r_end_time res = None \<and>
        r_crosses_midnight res = False \<and> r_duration_minutes res = 0 \<and>
        shift_type_schedules (committed (snd (createShiftType w u cdata))) =
          shift_type_schedules (committed w) @
            [\<lparr>sch_schedule_id = next_uuid w + 1, sch_shift_type_id = next_uuid w,
              sch_template_version_id = v_template_version_id v,
              sch_start_time = None, sch_end_time = None,
              sch_crosses_midnight = False, sch_duration_minutes = 0\<rparr>])
   \<and> ((x = None) \<noteq> (y = None) \<longrightarrow>
        updateShiftType w u i (udata\<lparr>ud_start_time := x, ud_end_time := y\<rparr>) =
        updateShiftType w u i (udata\<lparr>ud_start_time := None, ud_end_time := None\<rparr>))
   \<and> (falsy a \<noteq> falsy b \<longrightarrow>
        updateShiftType w u i (udata\<lparr>ud_start_time := Some a, ud_end_time := Some b\<rparr>) =
        updateShiftType w u i (udata\<lparr>ud_start_time := Some None, ud_end_time := Some None\<rparr>))"
proof (intro conjI impI)
  assume "falsy a \<noteq> falsy b"
  then show "createShiftType w u (cdata\<lparr>cd_start_time := a, cd_end_time := b\<rparr>) =
      createShiftType w u (cdata\<lparr>cd_start_time := None, cd_end_time := None\<rparr>)"
    by (rule createShiftType_one_sided)
next
  assume a: "find_active_template (committed w) u = Some t \<and>
       getCurrentVersion (committed w) (t_template_id t) = Inr v \<and>
       falsy (cd_start_time cdata) \<noteq> falsy (cd_end_time cdata) \<and>
       fst (createShiftType w u cdata) = Inr res"
  then have h: "find_active_template (committed w) u = Some t"
    "getCurrentVersion (committed w) (t_template_id t) = Inr v"
    "falsy (cd_start_time cdata) \<or> falsy (cd_end_time cdata)"
    "fst (createShiftType w u cdata) = Inr res"
    by auto
  note n = createShiftType_untimed [OF h]
  show "r_start_time res = None" by (rule n(1))
  show "r_end_time res = None" by (rule n(2))
  show "r_crosses_midnight res = False" by (rule n(3))
  show "r_duration_minutes res = 0" by (rule n(4))
  show "shift_type_schedules (committed (snd (createShiftType w u cdata))) =
          shift_type_schedules (committed w) @
            [\<lparr>sch_schedule_id = next_uuid w + 1, sch_shift_type_id = next_uuid w,
              sch_template_version_id = v_template_version_id v,
              sch_start_time = None, sch_end_time = None,
              sch_crosses_midnight = False, sch_duration_minutes = 0\<rparr>]"
    by (rule n(5))
next
  assume "(x = None) \<noteq> (y = None)"
  then show "updateShiftType w u i (udata\<lparr>ud_start_time := x, ud_end_time := y\<rparr>) =
        updateShiftType w u i (udata\<lparr>ud_start_time := None, ud_end_time := None\<rparr>)"
    by (rule updateShiftType_one_omitted)
next
  assume "falsy a \<noteq> falsy b"
  then show "updateShiftType w u i (udata\<lparr>ud_start_time := Some a, ud_end_time := Some b\<rparr>) =
        updateShiftType w u i (udata\<lparr>ud_start_time := Some None, ud_end_time := Some None\<rparr>)"
    by (rule updateShiftType_one_null)
qed

theorem one_sided_times_defaulted_witness:
  "falsy (Some ''22:30:00'') \<noteq> falsy None
   \<and> createShiftType ex_server 100 (ex_create_data\<lparr>cd_start_time := Some ''22:30:00'', cd_end_time := None\<rparr>) =
      createShiftType ex_server 100 (ex_create_data\<lparr>cd_start_time := None, cd_end_time := None\<rparr>)
   \<and> fst (createShiftType ex_server 100 (ex_create_data\<lparr>cd_end_time := None\<rparr>)) =
       Inr \<lparr>r_shift_type_id = 1000, r_code = ''N'', r_name = ''Night'', r_color = None,
            r_sort_order = Some 2, r_start_time = None, r_end_time = None,
            r_crosses_midnight = False, r_duration_minutes = 0\<rparr>
   \<and> shift_type_schedules (committed (snd (createShiftType ex_server 100 (ex_create_data\<lparr>cd_end_time := None\<rparr>)))) =
       [ex_schedule,
        \<lparr>sch_schedule_id = 1001, sch_shift_type_id = 1000, sch_template_version_id = 12,
         sch_start_time = None, sch_end_time = None,
         sch_crosses_midnight = False, sch_duration_minutes = 0\<rparr>]
   \<and> updateShiftType ex_timed_server 100 21
        (ex_update_data\<lparr>ud_start_time := Some (Some ''09:00:00''), ud_end_time := None\<rparr>) =
      updateShiftType ex_timed_server 100 21
        (ex_update_data\<lparr>ud_start_time := None, ud_end_time := None\<rparr>)
   \<and> updateShiftType ex_timed_server 100 21
        (ex_update_data\<lparr>ud_start_time := Some (Some ''09:00:00''), ud_end_time := Some None\<rparr>) =
      updateShiftType ex_timed_server 100 21
        (ex_update_data\<lparr>ud_start_time := Some None, ud_end_time := Some None\<rparr>)"
proof -
  let ?res = "\<lparr>r_shift_type_id = 1000, r_code = ''N'', r_name = ''Night'', r_color = None,
            r_sort_order = Some 2, r_start_time = None, r_end_time = None,
            r_crosses_midnight = False, r_duration_minutes = 0\<rparr>"
  have f: "falsy (Some ''22:30:00'') \<noteq> falsy None" by (simp add: falsy_def)
  have f2: "falsy (Some ''09:00:00'') \<noteq> falsy None" by (simp add: falsy_def)
  have o: "(Some (Some ''09:00:00'') = None) \<noteq> ((None :: string option option) = None)" by simp
  have h: "find_active_template (committed ex_server) 100 = Some ex_template \<and>
       getCurrentVersion (committed ex_server) (t_template_id ex_template) = Inr ex_v2 \<and>
       falsy (cd_start_time (ex_create_data\<lparr>cd_end_time := None\<rparr>)) \<noteq>
       falsy (cd_end_time (ex_create_data\<lparr>cd_end_time := None\<rparr>)) \<and>
       fst (createShiftType ex_server 100 (ex_create_data\<lparr>cd_end_time := None\<rparr>)) = Inr ?res"
    by code_simp
  have tabs: "shift_type_schedules (committed ex_server) = [ex_schedule]"
    "next_uuid ex_server = 1000" "v_template_version_id ex_v2 = 12"
    by code_simp+
  from one_sided_times_defaulted [where a = "Some ''22:30:00''" and b = None and w = ex_server
      and u = 100 and cdata = ex_create_data] f
  have c1: "createShiftType ex_server 100 (ex_create_data\<lparr>cd_start_time := Some ''22:30:00'', cd_end_time := None\<rparr>) =
      createShiftType ex_server 100 (ex_create_data\<lparr>cd_start_time := None, cd_end_time := None\<rparr>)"
    by blast
  from one_sided_times_defaulted [where w = ex_server and u = 100 and t = ex_template
      and v = ex_v2 and cdata = "ex_create_data\<lparr>cd_end_time := None\<rparr>" and res = "?res"] h
  have c2: "shift_type_schedules (committed (snd (createShiftType ex_server 100 (ex_create_data\<lparr>cd_end_time := None\<rparr>)))) =
       [ex_schedule,
        \<lparr>sch_schedule_id = 1001, sch_shift_type_id = 1000, sch_template_version_id = 12,
         sch_start_time = None, sch_end_time = None,
         sch_crosses_midnight = False, sch_duration_minutes = 0\<rparr>]"
    by (simp add: tabs)
  from one_sided_times_defaulted [where x = "Some (Some ''09:00:00'')" and y = None
      and w = ex_timed_server and u = 100 and i = 21 and udata = ex_update_data] o
  have c3: "updateShiftType ex_timed_server 100 21
        (ex_update_data\<lparr>ud_start_time := Some (Some ''09:00:00''), ud_end_time := None\<rparr>) =
      updateShiftType ex_timed_server 100 21
        (ex_update_data\<lparr>ud_start_time := None, ud_end_time := None\<rparr>)"
    by blast
  from one_sided_times_defaulted [where a = "Some ''09:00:00''" and b = None
      and w = ex_timed_server and u = 100 and i = 21 and udata = ex_update_data] f2
  have c4: "updateShiftType ex_timed_server 100 21
        (ex_update_data\<lparr>ud_start_time := Some (Some ''09:00:00''), ud_end_time := Some None\<rparr>) =
      updateShiftType ex_timed_server 100 21
        (ex_update_data\<lparr>ud_start_time := Some None, ud_end_time := Some None\<rparr>)"
    by blast
  from h have c0: "fst (createShiftType ex_server 100 (ex_create_data\<lparr>cd_end_time := None\<rparr>)) = Inr ?res"
    by blast
  from f c0 c1 c2 c3 c4 show ?thesis by blast
qed

text \<open>
  The claim as worded fails: a create with a start time only succeeds with no times, and an
  update with a start time only succeeds and returns the times the schedule already had.
\<close>

theorem one_sided_times_counterexample:
  "fst (createShiftType ex_server 100 (ex_create_data\<lparr>cd_end_time := None\<rparr>)) =
     Inr \<lparr>r_shift_type_id = 1000, r_code = ''N'', r_name = ''Night'', r_color = None,
          r_sort_order = Some 2, r_start_time = None, r_end_time = None,
          r_crosses_midnight = False, r_duration_minutes = 0\<rparr>
   \<and> fst (updateShiftType ex_timed_server 100 21
        (ex_update_data\<lparr>ud_start_time := Some (Some ''09:00:00'')\<rparr>)) =
     Inr \<lparr>r_shift_type_id = 21, r_code = ''D'', r_name = ''Day'', r_color = None,
          r_sort_order = Some 1, r_start_time = Some ''07:00:00'', r_end_time = Some ''15:30:00'',
          r_crosses_midnight = False, r_duration_minutes = 510\<rparr>"
  by code_simp

end
